theory Spec2Isabelle
  imports Main
begin

section \<open>Values of the Python program\<close>

text \<open>
  A naive \<open>datetime\<close> is the count of microseconds (the resolution of Python's
  \<open>datetime\<close>) since \<open>datetime.min\<close>, the first instant of year 1; the last one,
  \<open>datetime.max\<close>, is the last microsecond of year 9999. A \<open>timedelta\<close> is a count of
  microseconds as well. The attribute \<open>.days\<close> of a timedelta is the floor of the
  quotient by one day (Python normalises the remainder to be non-negative), which is
  exactly \<open>div\<close> on \<open>int\<close>.
\<close>

type_synonym datetime = int
type_synonym timedelta = int

definition microseconds_per_day :: int where
  "microseconds_per_day = 86400000000"

definition timedelta_of_days :: "int \<Rightarrow> timedelta" where
  "timedelta_of_days n = n * microseconds_per_day"

definition days_of :: "timedelta \<Rightarrow> int" where
  "days_of td = td div microseconds_per_day"

definition datetime_max :: datetime where
  "datetime_max = 3652059 * microseconds_per_day - 1"

definition is_datetime :: "int \<Rightarrow> bool" where
  "is_datetime t = (0 \<le> t \<and> t \<le> datetime_max)"

text \<open>
  The exceptions of the program. Every \<open>raise\<close> of the routes is an \<open>HTTPException\<close>
  with a status code and a detail string. Reading \<open>.value\<close> of a status that is \<open>NULL\<close>
  raises \<open>AttributeError\<close>. \<open>timedelta(days=n)\<close> raises \<open>OverflowError\<close> when the
  magnitude of \<open>n\<close> exceeds 999999999, and adding a timedelta to a datetime raises
  \<open>OverflowError\<close> when the sum leaves the range of \<open>datetime\<close>. The difference of two
  datetimes always fits a timedelta.
\<close>

datatype error = HTTPException nat string | AttributeError | OverflowError

definition timedelta_days :: "int \<Rightarrow> error + timedelta" where
  "timedelta_days n =
     (if 999999999 < \<bar>n\<bar> then Inl OverflowError else Inr (timedelta_of_days n))"

definition datetime_add :: "datetime \<Rightarrow> timedelta \<Rightarrow> error + datetime" where
  "datetime_add t td = (if is_datetime (t + td) then Inr (t + td) else Inl OverflowError)"

text \<open>The expression \<open>t + timedelta(days=n)\<close>.\<close>

definition add_days :: "datetime \<Rightarrow> int \<Rightarrow> error + datetime" where
  "add_days t n = (case timedelta_days n of Inl e \<Rightarrow> Inl e | Inr td \<Rightarrow> datetime_add t td)"

text \<open>\<open>t + timedelta(days=n)\<close> is a datetime: neither of the two steps overflows.\<close>

definition representable :: "datetime \<Rightarrow> int \<Rightarrow> bool" where
  "representable t n = (\<bar>n\<bar> \<le> 999999999 \<and> is_datetime (t + timedelta_of_days n))"

text \<open>
  A Python \<open>float\<close> is a pair \<open>(m, e)\<close> standing for \<open>m * 2 ^ e\<close>; the program only
  stores and returns floats.
\<close>

type_synonym pyfloat = "int \<times> int"

text \<open>\<open>str\<close> of an integer, as the f-strings of the routes print it.\<close>

definition digit_char :: "nat \<Rightarrow> char" where
  "digit_char d = ''0123456789'' ! d"

function str_nat :: "nat \<Rightarrow> string" where
  "str_nat n = (if n < 10 then [digit_char n] else str_nat (n div 10) @ [digit_char (n mod 10)])"
  by pat_completeness auto
termination
  by (relation "measure (\<lambda>n. n)") auto

declare str_nat.simps [simp del]

definition str_int :: "int \<Rightarrow> string" where
  "str_int i = (if i < 0 then CHR ''-'' # str_nat (nat (- i)) else str_nat (nat i))"

text \<open>
  A nullable Boolean column read in a condition: \<open>None\<close> is falsy, as in Python.
\<close>

definition truthy :: "bool option \<Rightarrow> bool" where
  "truthy b = (b = Some True)"

section \<open>The data model (app/models/models.py)\<close>

datatype SubscriptionStatus = ACTIVE | CANCELLED | EXPIRED

text \<open>The \<open>.value\<close> of a member of the string enumeration.\<close>

fun status_value :: "SubscriptionStatus \<Rightarrow> string" where
  "status_value ACTIVE = ''ACTIVE''"
| "status_value CANCELLED = ''CANCELLED''"
| "status_value EXPIRED = ''EXPIRED''"

text \<open>
  The three mapped classes, one record each. Fields carry a prefix where two classes use
  the same column name (\<open>id\<close>, \<open>is_active\<close>). Columns that are nullable in the schema are
  options. The columns \<open>created_at\<close> and \<open>updated_at\<close>, which only the column defaults
  of the ORM ever write, are left out: no route of the subscription lifecycle reads or
  assigns them.
\<close>

record Plan =
  p_id :: int
  p_name :: string
  p_description :: "string option"
  p_price :: pyfloat
  p_duration_days :: int
  p_features :: "string option"
  p_is_active :: "bool option"

record User =
  u_id :: int
  u_email :: string
  u_username :: string
  u_hashed_password :: string
  u_is_active :: "bool option"
  u_is_admin :: "bool option"

record Subscription =
  s_id :: int
  user_id :: int
  plan_id :: int
  start_date :: datetime
  end_date :: datetime
  status :: "SubscriptionStatus option"
  cancelled_at :: "datetime option"

text \<open>
  The database as the session sees it: the rows of the three tables in storage order and
  the sequence that numbers new subscriptions. \<open>query(...).filter(...).first()\<close> is
  \<^const>\<open>find\<close> on the rows, \<open>.all()\<close> is \<^const>\<open>filter\<close>; assigning to the attributes of
  the object that \<open>first()\<close> returned and committing rewrites that row.
\<close>

record db =
  users :: "User list"
  plans :: "Plan list"
  subscriptions :: "Subscription list"
  subscriptions_id_seq :: int

fun update_first :: "('a \<Rightarrow> bool) \<Rightarrow> ('a \<Rightarrow> 'a) \<Rightarrow> 'a list \<Rightarrow> 'a list" where
  "update_first P f [] = []"
| "update_first P f (x # xs) = (if P x then f x # xs else x # update_first P f xs)"

section \<open>Request schemas (app/schemas/subscription.py)\<close>

record SubscriptionCreate =
  c_user_id :: int
  c_plan_id :: int

text \<open>
  Both fields of \<open>SubscriptionUpdate\<close> are optional and the route reads the request with
  \<open>dict(exclude_unset=True)\<close>: the outer option says whether the key was sent at all, the
  inner one whether it was sent as \<open>null\<close>.
\<close>

record SubscriptionUpdate =
  upd_plan_id :: "int option option"
  upd_status :: "SubscriptionStatus option option"

section \<open>Errors\<close>

text \<open>
  The error kinds of the specification are status codes here: NotFound is 404, Conflict
  is 400 (the routes answer business-rule violations with \<open>HTTP_400_BAD_REQUEST\<close>),
  Forbidden is 403.
\<close>

fun is_NotFound :: "error \<Rightarrow> bool" where
  "is_NotFound (HTTPException c d) = (c = 404)"
| "is_NotFound _ = False"

fun is_Conflict :: "error \<Rightarrow> bool" where
  "is_Conflict (HTTPException c d) = (c = 400)"
| "is_Conflict _ = False"

fun is_Forbidden :: "error \<Rightarrow> bool" where
  "is_Forbidden (HTTPException c d) = (c = 403)"
| "is_Forbidden _ = False"

text \<open>
  A route returns either the error it raised, or its return value together with the
  committed database. A route that raises has not committed: the database stays as it was.
\<close>

type_synonym 'a result = "error + ('a \<times> db)"

definition state_after :: "db \<Rightarrow> 'a result \<Rightarrow> db" where
  "state_after d r = (case r of Inl e \<Rightarrow> d | Inr (v, d') \<Rightarrow> d')"

section \<open>Authentication dependencies (app/auth/jwt.py)\<close>

definition get_current_active_user :: "User \<Rightarrow> error + User" where
  "get_current_active_user current_user =
     (if \<not> truthy (u_is_active current_user) then Inl (HTTPException 400 ''Inactive user'')
      else Inr current_user)"

definition get_current_admin_user :: "User \<Rightarrow> error + User" where
  "get_current_admin_user current_user =
     (if \<not> truthy (u_is_admin current_user) then Inl (HTTPException 403 ''Not enough permissions'')
      else Inr current_user)"

section \<open>The subscription routes (app/routes/subscriptions.py)\<close>

text \<open>
  Each call of \<open>datetime.utcnow()\<close> in a route is an argument of its model, in the order
  of the calls.
\<close>

definition create_subscription ::
  "SubscriptionCreate \<Rightarrow> User \<Rightarrow> datetime \<Rightarrow> db \<Rightarrow> Subscription result" where
  "create_subscription subscription current_user utcnow d =
     (case find (\<lambda>u. u_id u = c_user_id subscription) (users d) of
        None \<Rightarrow> Inl (HTTPException 404
                 (''User with ID '' @ str_int (c_user_id subscription) @ '' not found''))
      | Some user \<Rightarrow>
     (case find (\<lambda>p. p_id p = c_plan_id subscription) (plans d) of
        None \<Rightarrow> Inl (HTTPException 404
                 (''Plan with ID '' @ str_int (c_plan_id subscription) @ '' not found''))
      | Some plan \<Rightarrow>
     if \<not> truthy (p_is_active plan) then
       Inl (HTTPException 400
              (''Plan with ID '' @ str_int (c_plan_id subscription) @ '' is not active''))
     else
     (case find (\<lambda>s. user_id s = c_user_id subscription \<and> status s = Some ACTIVE)
             (subscriptions d) of
        Some active_subscription \<Rightarrow>
          Inl (HTTPException 400 ''User already has an active subscription'')
      | None \<Rightarrow>
          let start = utcnow in
          (case add_days start (p_duration_days plan) of
             Inl e \<Rightarrow> Inl e
           | Inr end \<Rightarrow>
               let new_subscription =
                     \<lparr>s_id = subscriptions_id_seq d,
                      user_id = c_user_id subscription,
                      plan_id = c_plan_id subscription,
                      start_date = start,
                      end_date = end,
                      status = Some ACTIVE,
                      cancelled_at = None\<rparr>
               in Inr (new_subscription,
                       d\<lparr>subscriptions := subscriptions d @ [new_subscription],
                         subscriptions_id_seq := subscriptions_id_seq d + 1\<rparr>)))))"

text \<open>
  The dictionary \<open>update_data\<close> of \<open>update_subscription\<close>: one optional entry per key it
  can hold. The key \<open>plan_id\<close> holds an integer once the plan has been found (a \<open>null\<close>
  plan id finds no plan and the route has raised by then).
\<close>

record update_data =
  ud_plan_id :: "int option"
  ud_status :: "SubscriptionStatus option option"
  ud_end_date :: "datetime option"
  ud_cancelled_at :: "datetime option"

text \<open>The loop \<open>for key, value in update_data.items(): setattr(subscription, key, value)\<close>.\<close>

definition setattr_all :: "update_data \<Rightarrow> Subscription \<Rightarrow> Subscription" where
  "setattr_all ud s =
     (let s1 = (case ud_plan_id ud of None \<Rightarrow> s | Some p \<Rightarrow> s\<lparr>plan_id := p\<rparr>);
          s2 = (case ud_status ud of None \<Rightarrow> s1 | Some st \<Rightarrow> s1\<lparr>status := st\<rparr>);
          s3 = (case ud_end_date ud of None \<Rightarrow> s2 | Some e \<Rightarrow> s2\<lparr>end_date := e\<rparr>);
          s4 = (case ud_cancelled_at ud of None \<Rightarrow> s3 | Some c \<Rightarrow> s3\<lparr>cancelled_at := Some c\<rparr>)
      in s4)"

text \<open>
  The block under \<open>if "plan_id" in update_data\<close>: the plan checks and the new end date.
  \<open>now1\<close> is the clock read for \<open>days_left\<close>, \<open>now2\<close> the one for \<open>new_end_date\<close>.
\<close>

definition plan_entries ::
  "SubscriptionUpdate \<Rightarrow> Subscription \<Rightarrow> datetime \<Rightarrow> datetime \<Rightarrow> db \<Rightarrow> error + update_data" where
  "plan_entries subscription_update subscription now1 now2 d =
     (case upd_plan_id subscription_update of
        None \<Rightarrow>
          Inr \<lparr>ud_plan_id = None, ud_status = upd_status subscription_update,
               ud_end_date = None, ud_cancelled_at = None\<rparr>
      | Some None \<Rightarrow> Inl (HTTPException 404 ''Plan with ID None not found'')
      | Some (Some new_plan_id) \<Rightarrow>
        (case find (\<lambda>p. p_id p = new_plan_id) (plans d) of
           None \<Rightarrow> Inl (HTTPException 404
                    (''Plan with ID '' @ str_int new_plan_id @ '' not found''))
         | Some plan \<Rightarrow>
           if \<not> truthy (p_is_active plan) then
             Inl (HTTPException 400
                    (''Plan with ID '' @ str_int new_plan_id @ '' is not active''))
           else
             let days_left = days_of (end_date subscription - now1);
                 days_left = (if days_left < 0 then 0 else days_left)
             in (case add_days now2 (p_duration_days plan + days_left) of
                   Inl e \<Rightarrow> Inl e
                 | Inr new_end_date \<Rightarrow>
                     Inr \<lparr>ud_plan_id = Some new_plan_id,
                          ud_status = upd_status subscription_update,
                          ud_end_date = Some new_end_date, ud_cancelled_at = None\<rparr>)))"

definition update_subscription ::
  "int \<Rightarrow> SubscriptionUpdate \<Rightarrow> User \<Rightarrow> datetime \<Rightarrow> datetime \<Rightarrow> datetime \<Rightarrow> db
     \<Rightarrow> Subscription result" where
  "update_subscription subscription_id subscription_update current_user now1 now2 now3 d =
     (case find (\<lambda>s. s_id s = subscription_id) (subscriptions d) of
        None \<Rightarrow> Inl (HTTPException 404
                 (''Subscription with ID '' @ str_int subscription_id @ '' not found''))
      | Some subscription \<Rightarrow>
     if u_id current_user \<noteq> user_id subscription \<and> \<not> truthy (u_is_admin current_user) then
       Inl (HTTPException 403 ''Not authorized to access this resource'')
     else
     (case plan_entries subscription_update subscription now1 now2 d of
        Inl e \<Rightarrow> Inl e
      | Inr update_data \<Rightarrow>
          let update_data =
                (if ud_status update_data = Some (Some CANCELLED)
                 then update_data\<lparr>ud_cancelled_at := Some now3\<rparr> else update_data);
              subscription' = setattr_all update_data subscription
          in Inr (subscription',
                  d\<lparr>subscriptions :=
                      update_first (\<lambda>s. s_id s = subscription_id) (\<lambda>s. subscription')
                        (subscriptions d)\<rparr>)))"

definition cancel_subscription :: "int \<Rightarrow> User \<Rightarrow> datetime \<Rightarrow> db \<Rightarrow> unit result" where
  "cancel_subscription subscription_id current_user utcnow d =
     (case find (\<lambda>s. s_id s = subscription_id) (subscriptions d) of
        None \<Rightarrow> Inl (HTTPException 404
                 (''Subscription with ID '' @ str_int subscription_id @ '' not found''))
      | Some subscription \<Rightarrow>
     if u_id current_user \<noteq> user_id subscription \<and> \<not> truthy (u_is_admin current_user) then
       Inl (HTTPException 403 ''Not authorized to access this resource'')
     else if status subscription \<noteq> Some ACTIVE then
       (case status subscription of
          None \<Rightarrow> Inl AttributeError
        | Some st \<Rightarrow> Inl (HTTPException 400 (''Subscription is already '' @ status_value st)))
     else
       Inr ((), d\<lparr>subscriptions :=
                    update_first (\<lambda>s. s_id s = subscription_id)
                      (\<lambda>s. s\<lparr>status := Some CANCELLED, cancelled_at := Some utcnow\<rparr>)
                      (subscriptions d)\<rparr>))"

datatype py_value = PyNone | PyInt int | PyDict "(string \<times> string) list"

datatype background_task = Task_check_expired_subscriptions

text \<open>
  \<open>check_expired\<close> only queues the sweep as a background task and answers with a fixed
  message; the task runs after the response has been sent.
\<close>

definition check_expired :: "background_task list \<Rightarrow> User \<Rightarrow> py_value \<times> background_task list" where
  "check_expired background_tasks current_user =
     (PyDict [(''message'', ''Expired subscription check triggered'')],
      background_tasks @ [Task_check_expired_subscriptions])"

section \<open>The expiry sweep (app/services/subscription_service.py)\<close>

text \<open>
  The sweep opens a session of its own, and its \<open>try\<close> block catches any exception of
  the query or of the commit. The argument \<open>fault\<close> says whether and where the
  persistence layer raises, with the text of the exception. A commit either writes every
  pending change or, after \<open>rollback\<close>, none.
\<close>

datatype fault = NoFault | QueryRaises string | CommitRaises string

datatype log_level = INFO | ERROR

type_synonym log_record = "log_level \<times> string"

record sweep_outcome =
  returned :: py_value
  database :: db
  logged :: "log_record list"

definition is_overdue :: "datetime \<Rightarrow> Subscription \<Rightarrow> bool" where
  "is_overdue utcnow s = (status s = Some ACTIVE \<and> end_date s < utcnow)"

definition expired_subscriptions :: "datetime \<Rightarrow> db \<Rightarrow> Subscription list" where
  "expired_subscriptions utcnow d = filter (is_overdue utcnow) (subscriptions d)"

definition mark_expired :: "datetime \<Rightarrow> Subscription list \<Rightarrow> Subscription list" where
  "mark_expired utcnow rows =
     map (\<lambda>s. if is_overdue utcnow s then s\<lparr>status := Some EXPIRED\<rparr> else s) rows"

definition check_expired_subscriptions :: "fault \<Rightarrow> datetime \<Rightarrow> db \<Rightarrow> sweep_outcome" where
  "check_expired_subscriptions fault utcnow d =
     (let log0 = [(INFO, ''Checking for expired subscriptions...'')];
          failure = (\<lambda>e. (ERROR, ''Error checking expired subscriptions: '' @ e))
      in case fault of
           QueryRaises e \<Rightarrow> \<lparr>returned = PyNone, database = d, logged = log0 @ [failure e]\<rparr>
         | _ \<Rightarrow>
           let expired = expired_subscriptions utcnow d;
               marking = map (\<lambda>s. (INFO, ''Marking subscription '' @ str_int (s_id s)
                                             @ '' as EXPIRED'')) expired
           in (case fault of
                 CommitRaises e \<Rightarrow>
                   \<lparr>returned = PyNone, database = d, logged = log0 @ marking @ [failure e]\<rparr>
               | _ \<Rightarrow>
                   \<lparr>returned = PyNone,
                    database = d\<lparr>subscriptions := mark_expired utcnow (subscriptions d)\<rparr>,
                    logged = log0 @ marking @
                      [(INFO, ''Updated '' @ str_int (int (length expired))
                                @ '' expired subscriptions'')]\<rparr>))"

section \<open>Sequences of calls\<close>

datatype op =
    Create SubscriptionCreate User datetime
  | Update int SubscriptionUpdate User datetime datetime datetime
  | Cancel int User datetime
  | SweepExpired fault datetime

fun step :: "op \<Rightarrow> db \<Rightarrow> db" where
  "step (Create subscription current_user utcnow) d =
     state_after d (create_subscription subscription current_user utcnow d)"
| "step (Update subscription_id subscription_update current_user now1 now2 now3) d =
     state_after d
       (update_subscription subscription_id subscription_update current_user now1 now2 now3 d)"
| "step (Cancel subscription_id current_user utcnow) d =
     state_after d (cancel_subscription subscription_id current_user utcnow d)"
| "step (SweepExpired fault utcnow) d = database (check_expired_subscriptions fault utcnow d)"

fun run :: "op list \<Rightarrow> db \<Rightarrow> db" where
  "run [] d = d"
| "run (x # xs) d = run xs (step x d)"

fun is_Update :: "op \<Rightarrow> bool" where
  "is_Update (Update subscription_id subscription_update current_user now1 now2 now3) = True"
| "is_Update _ = False"

text \<open>
  The users that hold an Active subscription, one entry per Active row: no user holds two
  exactly when this list has no repetition.
\<close>

definition active_users :: "db \<Rightarrow> int list" where
  "active_users d = map user_id (filter (\<lambda>s. status s = Some ACTIVE) (subscriptions d))"

definition single_active :: "db \<Rightarrow> bool" where
  "single_active d = distinct (active_users d)"

definition count_active :: "db \<Rightarrow> int \<Rightarrow> nat" where
  "count_active d u =
     length (filter (\<lambda>s. user_id s = u \<and> status s = Some ACTIVE) (subscriptions d))"

text \<open>The coupling of \<open>cancelled_at\<close> and the status, and the half of it every call keeps.\<close>

definition coupled :: "Subscription \<Rightarrow> bool" where
  "coupled s = ((cancelled_at s \<noteq> None) = (status s = Some CANCELLED))"

definition all_coupled :: "db \<Rightarrow> bool" where
  "all_coupled d = list_all coupled (subscriptions d)"

definition stamped :: "Subscription \<Rightarrow> bool" where
  "stamped s = (status s \<noteq> Some CANCELLED \<or> cancelled_at s \<noteq> None)"

definition all_stamped :: "db \<Rightarrow> bool" where
  "all_stamped d = list_all stamped (subscriptions d)"

text \<open>The number of rows that differ between two states of the subscriptions table.\<close>

definition changed_rows :: "db \<Rightarrow> db \<Rightarrow> nat" where
  "changed_rows d d' =
     length (filter (\<lambda>(a, b). a \<noteq> b) (zip (subscriptions d) (subscriptions d')))"

text \<open>
  An update that moves a subscription out of Cancelled: the request sets \<open>status\<close> to
  something other than Cancelled and the row it addresses is Cancelled.
\<close>

fun leaves_cancelled :: "op \<Rightarrow> db \<Rightarrow> bool" where
  "leaves_cancelled (Update subscription_id subscription_update current_user now1 now2 now3) d =
     (case upd_status subscription_update of
        None \<Rightarrow> False
      | Some st \<Rightarrow>
          st \<noteq> Some CANCELLED \<and>
          (case find (\<lambda>s. s_id s = subscription_id) (subscriptions d) of
             None \<Rightarrow> False
           | Some s \<Rightarrow> status s = Some CANCELLED))"
| "leaves_cancelled _ d = False"

text \<open>The same database with other prices on its plans.\<close>

definition reprice :: "(Plan \<Rightarrow> pyfloat) \<Rightarrow> db \<Rightarrow> db" where
  "reprice g d = d\<lparr>plans := map (\<lambda>p. p\<lparr>p_price := g p\<rparr>) (plans d)\<rparr>"

section \<open>Example data\<close>

definition alice :: User where
  "alice = \<lparr>u_id = 1, u_email = ''alice@example.com'', u_username = ''alice'',
            u_hashed_password = ''x'', u_is_active = Some True, u_is_admin = Some False\<rparr>"

definition bob :: User where
  "bob = \<lparr>u_id = 2, u_email = ''bob@example.com'', u_username = ''bob'',
          u_hashed_password = ''y'', u_is_active = Some True, u_is_admin = Some False\<rparr>"

definition monthly :: Plan where
  "monthly = \<lparr>p_id = 1, p_name = ''monthly'', p_description = None, p_price = (19, - 1),
              p_duration_days = 30,
              p_features = None, p_is_active = Some True\<rparr>"

definition db0 :: db where
  "db0 = \<lparr>users = [alice, bob], plans = [monthly], subscriptions = [], subscriptions_id_seq = 1\<rparr>"

definition calls1 :: "op list" where
  "calls1 = [Create \<lparr>c_user_id = 1, c_plan_id = 1\<rparr> alice 0,
             Create \<lparr>c_user_id = 1, c_plan_id = 1\<rparr> alice 5,
             Cancel 1 alice 7,
             Create \<lparr>c_user_id = 1, c_plan_id = 1\<rparr> bob 9,
             SweepExpired NoFault 10]"

definition sub1 :: Subscription where
  "sub1 = \<lparr>s_id = 1, user_id = 1, plan_id = 1, start_date = 0, end_date = 2592000000000,
           status = Some ACTIVE, cancelled_at = None\<rparr>"

definition db1 :: db where
  "db1 = \<lparr>users = [alice, bob], plans = [monthly], subscriptions = [sub1],
          subscriptions_id_seq = 2\<rparr>"

definition sub1_cancelled :: Subscription where
  "sub1_cancelled = sub1\<lparr>status := Some CANCELLED, cancelled_at := Some 4\<rparr>"

definition db1_cancelled :: db where
  "db1_cancelled = db1\<lparr>subscriptions := [sub1_cancelled]\<rparr>"

definition plan_b :: Plan where
  "plan_b = \<lparr>p_id = 2, p_name = ''plan B'', p_description = None, p_price = (5, 0),
             p_duration_days = 20,
             p_features = None, p_is_active = Some True\<rparr>"

definition db2 :: db where
  "db2 = db1\<lparr>plans := [monthly, plan_b]\<rparr>"

definition sub1_changed :: Subscription where
  "sub1_changed = sub1\<lparr>plan_id := 2, end_date := 4320000000000\<rparr>"

definition sub1_changed_cancelled :: Subscription where
  "sub1_changed_cancelled =
     sub1\<lparr>plan_id := 2, end_date := 4320000000000, status := Some CANCELLED,
          cancelled_at := Some 1728000000007\<rparr>"

definition sub2 :: Subscription where
  "sub2 = \<lparr>s_id = 2, user_id = 2, plan_id = 1, start_date = 0, end_date = 5,
           status = Some ACTIVE, cancelled_at = None\<rparr>"

definition sub3 :: Subscription where
  "sub3 = \<lparr>s_id = 3, user_id = 2, plan_id = 1, start_date = 0, end_date = 5,
           status = Some CANCELLED, cancelled_at = Some 2\<rparr>"

definition db3 :: db where
  "db3 = \<lparr>users = [alice, bob], plans = [monthly], subscriptions = [sub1, sub2, sub3],
          subscriptions_id_seq = 4\<rparr>"

definition db3_swept :: db where
  "db3_swept = db3\<lparr>subscriptions := [sub1, sub2\<lparr>status := Some EXPIRED\<rparr>, sub3]\<rparr>"

definition db4 :: db where
  "db4 = \<lparr>users = [alice, bob], plans = [monthly], subscriptions = [sub2],
          subscriptions_id_seq = 3\<rparr>"

definition carol :: User where
  "carol = \<lparr>u_id = 3, u_email = ''carol@example.com'', u_username = ''carol'',
            u_hashed_password = ''z'', u_is_active = Some True, u_is_admin = Some True\<rparr>"

text \<open>Midnight of 1 January 2026, and a plan of three million days.\<close>

definition new_year_2026 :: datetime where
  "new_year_2026 = 739616 * 86400000000"

definition plan_long :: Plan where
  "plan_long = \<lparr>p_id = 3, p_name = ''long'', p_description = None, p_price = (1, 0),
                p_duration_days = 3000000, p_features = None, p_is_active = Some True\<rparr>"

definition db5 :: db where
  "db5 = db0\<lparr>plans := [monthly, plan_long]\<rparr>"

definition db6 :: db where
  "db6 = db1\<lparr>plans := [monthly, plan_b, plan_long]\<rparr>"

definition sub2_expired :: Subscription where
  "sub2_expired = sub2\<lparr>status := Some EXPIRED\<rparr>"

definition reopen :: SubscriptionUpdate where
  "reopen = \<lparr>upd_plan_id = None, upd_status = Some (Some ACTIVE)\<rparr>"

section \<open>Rows and queries\<close>

lemma str_int_1: "str_int 1 = ''1''"
  by (simp add: str_int_def str_nat.simps digit_char_def)

lemma str_int_7: "str_int 7 = ''7''"
  by (simp add: str_int_def str_nat.simps digit_char_def)

lemma str_int_42: "str_int 42 = ''42''"
  by (simp add: str_int_def str_nat.simps [of 42] str_nat.simps [of 4] digit_char_def)

lemma str_int_minus_3: "str_int (- 3) = ''-3''"
  by (simp add: str_int_def str_nat.simps [of 3] digit_char_def)

lemma add_days_eq:
  "add_days t n =
     (if representable t n then Inr (t + timedelta_of_days n) else Inl OverflowError)"
  by (auto simp: add_days_def timedelta_days_def datetime_add_def representable_def)

lemma find_update_first:
  "find P xs = Some x \<Longrightarrow> (\<And>y. P (f y) = P y) \<Longrightarrow> find P (update_first P f xs) = Some (f x)"
  by (induction xs) (auto split: if_splits)

lemma update_first_filter_subset:
  "(\<And>y. \<not> A (f y)) \<Longrightarrow> set (filter A (update_first P f xs)) \<subseteq> set (filter A xs)"
  by (induction xs) auto

lemma active_users_update_first:
  assumes "\<And>y. \<not> A (f y)" and "distinct (map g (filter A xs))"
  shows "distinct (map g (filter A (update_first P f xs)))"
  using assms(2)
proof (induction xs)
  case Nil
  then show ?case by simp
next
  case (Cons x xs)
  have sub: "set (filter A (update_first P f xs)) \<subseteq> set (filter A xs)"
    using assms(1) by (rule update_first_filter_subset)
  show ?case
  proof (cases "P x")
    case True
    with Cons.prems assms(1) show ?thesis by (auto split: if_splits)
  next
    case False
    with Cons sub show ?thesis by (auto split: if_splits)
  qed
qed

lemma active_mark_expired:
  "filter (\<lambda>s. status s = Some ACTIVE) (mark_expired now xs)
   = filter (\<lambda>s. status s = Some ACTIVE \<and> \<not> is_overdue now s) xs"
  by (induction xs) (auto simp: mark_expired_def is_overdue_def)

lemma distinct_map_filter_weaken:
  "distinct (map g (filter P xs)) \<Longrightarrow> distinct (map g (filter (\<lambda>x. P x \<and> Q x) xs))"
  using distinct_map_filter [of g "filter P xs" Q] by (simp add: conj_commute)

lemma step_single_active:
  "\<not> is_Update x \<Longrightarrow> single_active d \<Longrightarrow> single_active (step x d)"
proof (cases x)
  case (Create c u t)
  assume sa: "single_active d"
  show ?thesis unfolding Create
    using sa
    by (auto simp: create_subscription_def state_after_def single_active_def active_users_def
        Let_def find_None_iff split: option.splits sum.splits)
next
  case (Cancel i u t)
  assume sa: "single_active d"
  show ?thesis unfolding Cancel using sa
    by (auto simp: cancel_subscription_def state_after_def single_active_def active_users_def
        active_users_update_first split: option.splits)
next
  case (SweepExpired f t)
  assume sa: "single_active d"
  show ?thesis unfolding SweepExpired using sa
    by (cases f) (auto simp: check_expired_subscriptions_def single_active_def active_users_def
        active_mark_expired distinct_map_filter_weaken Let_def)
next
  case (Update a b c d e f)
  assume "\<not> is_Update x"
  with Update show ?thesis by simp
qed

lemma run_single_active:
  "list_all (\<lambda>x. \<not> is_Update x) xs \<Longrightarrow> single_active d \<Longrightarrow> single_active (run xs d)"
  by (induction xs arbitrary: d) (auto simp: step_single_active)

lemma length_filter_eq_le1:
  "distinct xs \<longleftrightarrow> (\<forall>u. length (filter (\<lambda>x. x = u) xs) \<le> 1)"
proof (induction xs)
  case Nil
  then show ?case by simp
next
  case (Cons x xs)
  have absent: "x \<notin> set xs \<longleftrightarrow> length (filter (\<lambda>y. y = x) xs) = 0"
    by (auto simp: filter_empty_conv)
  show ?case
  proof
    assume d: "distinct (x # xs)"
    with Cons have all: "\<forall>u. length (filter (\<lambda>x. x = u) xs) \<le> 1" by simp
    from d absent have z: "length (filter (\<lambda>y. y = x) xs) = 0" by simp
    show "\<forall>u. length (filter (\<lambda>y. y = u) (x # xs)) \<le> 1"
    proof
      fix u show "length (filter (\<lambda>y. y = u) (x # xs)) \<le> 1"
        using all z by (cases "x = u") auto
    qed
  next
    assume a: "\<forall>u. length (filter (\<lambda>y. y = u) (x # xs)) \<le> 1"
    have "length (filter (\<lambda>y. y = x) (x # xs)) \<le> 1" using a by blast
    then have z: "length (filter (\<lambda>y. y = x) xs) = 0" by simp
    have "\<forall>u. length (filter (\<lambda>y. y = u) xs) \<le> 1"
    proof
      fix u
      have "length (filter (\<lambda>y. y = u) (x # xs)) \<le> 1" using a by blast
      then show "length (filter (\<lambda>y. y = u) xs) \<le> 1" by (simp split: if_splits)
    qed
    with Cons z absent show "distinct (x # xs)" by simp
  qed
qed

lemma count_active_eq:
  "count_active d u = length (filter (\<lambda>x. x = u) (active_users d))"
proof -
  have "filter (\<lambda>s. user_id s = u \<and> status s = Some ACTIVE) (subscriptions d)
        = filter (\<lambda>s. user_id s = u) (filter (\<lambda>s. status s = Some ACTIVE) (subscriptions d))"
    by (simp add: conj_commute)
  then show ?thesis
    by (simp add: count_active_def active_users_def filter_map comp_def)
qed

lemma single_active_iff: "single_active d \<longleftrightarrow> (\<forall>u. count_active d u \<le> 1)"
  by (simp add: single_active_def length_filter_eq_le1 count_active_eq)

lemma create_refused:
  assumes "count_active d (c_user_id subscription) \<noteq> 0"
  shows "\<exists>e. create_subscription subscription current_user utcnow d = Inl e \<and>
           (\<forall>user plan. find (\<lambda>u. u_id u = c_user_id subscription) (users d) = Some user \<longrightarrow>
              find (\<lambda>p. p_id p = c_plan_id subscription) (plans d) = Some plan \<longrightarrow>
              truthy (p_is_active plan) \<longrightarrow>
              e = HTTPException 400 ''User already has an active subscription'')"
proof -
  from assms have "filter (\<lambda>s. user_id s = c_user_id subscription \<and> status s = Some ACTIVE)
      (subscriptions d) \<noteq> []"
    by (simp add: count_active_def)
  then have "find (\<lambda>s. user_id s = c_user_id subscription \<and> status s = Some ACTIVE)
      (subscriptions d) \<noteq> None"
    by (auto simp: find_None_iff filter_empty_conv)
  then show ?thesis
    by (auto simp: create_subscription_def split: option.splits)
qed

subsection \<open>At most one Active subscription per user\<close>

text \<open>
  C1. Single-active invariant: starting from a state in which no user holds two Active
  subscriptions, after any sequence of Create, Cancel and SweepExpired calls (failed calls
  and sweeps that hit a persistence failure included) every user holds at most one Active
  subscription; and in the state reached, Create for a user who holds one is refused: it
  returns an error, which is the Conflict ``User already has an active subscription''
  whenever the user and the plan exist and the plan is active.
\<close>

theorem single_active_invariant:
  assumes "single_active d" and "list_all (\<lambda>x. \<not> is_Update x) calls"
  shows "(\<forall>u. count_active (run calls d) u \<le> 1) \<and>
         (\<forall>subscription current_user utcnow.
            count_active (run calls d) (c_user_id subscription) = 1 \<longrightarrow>
            (\<exists>e. create_subscription subscription current_user utcnow (run calls d) = Inl e \<and>
              (\<forall>user plan.
                 find (\<lambda>u. u_id u = c_user_id subscription) (users (run calls d)) = Some user \<longrightarrow>
                 find (\<lambda>p. p_id p = c_plan_id subscription) (plans (run calls d)) = Some plan \<longrightarrow>
                 truthy (p_is_active plan) \<longrightarrow>
                 e = HTTPException 400 ''User already has an active subscription'')))"
proof -
  have "single_active (run calls d)"
    using assms run_single_active by blast
  then have "\<forall>u. count_active (run calls d) u \<le> 1"
    by (simp add: single_active_iff)
  moreover have "\<forall>subscription current_user utcnow.
            count_active (run calls d) (c_user_id subscription) = 1 \<longrightarrow>
            (\<exists>e. create_subscription subscription current_user utcnow (run calls d) = Inl e \<and>
              (\<forall>user plan.
                 find (\<lambda>u. u_id u = c_user_id subscription) (users (run calls d)) = Some user \<longrightarrow>
                 find (\<lambda>p. p_id p = c_plan_id subscription) (plans (run calls d)) = Some plan \<longrightarrow>
                 truthy (p_is_active plan) \<longrightarrow>
                 e = HTTPException 400 ''User already has an active subscription''))"
    using create_refused by simp
  ultimately show ?thesis by blast
qed

lemma run_calls1:
  "run calls1 db0 = db0\<lparr>subscriptions :=
      [\<lparr>s_id = 1, user_id = 1, plan_id = 1, start_date = 0, end_date = 2592000000000,
        status = Some CANCELLED, cancelled_at = Some 7\<rparr>,
       \<lparr>s_id = 2, user_id = 1, plan_id = 1, start_date = 9, end_date = 2592000000009,
        status = Some ACTIVE, cancelled_at = None\<rparr>], subscriptions_id_seq := 3\<rparr>"
  by (simp add: calls1_def db0_def alice_def bob_def monthly_def create_subscription_def
      cancel_subscription_def check_expired_subscriptions_def state_after_def truthy_def
      timedelta_of_days_def microseconds_per_day_def mark_expired_def is_overdue_def
      expired_subscriptions_def Let_def add_days_eq representable_def is_datetime_def
      datetime_max_def)

theorem single_active_invariant_witness:
  "single_active db0 \<and> list_all (\<lambda>x. \<not> is_Update x) calls1 \<and>
   count_active (run calls1 db0) 1 = 1 \<and>
   find (\<lambda>u. u_id u = 1) (users (run calls1 db0)) = Some alice \<and>
   find (\<lambda>p. p_id p = 1) (plans (run calls1 db0)) = Some monthly \<and>
   truthy (p_is_active monthly) \<and>
   create_subscription \<lparr>c_user_id = 1, c_plan_id = 1\<rparr> bob 11 (run calls1 db0)
     = Inl (HTTPException 400 ''User already has an active subscription'')"
proof -
  have h1: "single_active db0"
    by (simp add: single_active_def active_users_def db0_def)
  have h2: "list_all (\<lambda>x. \<not> is_Update x) calls1"
    by (simp add: calls1_def)
  have h3: "count_active (run calls1 db0) 1 = 1"
    unfolding run_calls1 by (simp add: count_active_def db0_def)
  have h4: "find (\<lambda>u. u_id u = 1) (users (run calls1 db0)) = Some alice"
    unfolding run_calls1 by (simp add: db0_def alice_def)
  have h5: "find (\<lambda>p. p_id p = 1) (plans (run calls1 db0)) = Some monthly"
    unfolding run_calls1 by (simp add: db0_def monthly_def)
  have h6: "truthy (p_is_active monthly)"
    by (simp add: truthy_def monthly_def)
  let ?S = "\<lparr>c_user_id = 1, c_plan_id = 1\<rparr>"
  from single_active_invariant [OF h1 h2]
  have "count_active (run calls1 db0) (c_user_id ?S) = 1 \<longrightarrow>
        (\<exists>e. create_subscription ?S bob 11 (run calls1 db0) = Inl e \<and>
          (\<forall>user plan.
             find (\<lambda>u. u_id u = c_user_id ?S) (users (run calls1 db0)) = Some user \<longrightarrow>
             find (\<lambda>p. p_id p = c_plan_id ?S) (plans (run calls1 db0)) = Some plan \<longrightarrow>
             truthy (p_is_active plan) \<longrightarrow>
             e = HTTPException 400 ''User already has an active subscription''))"
    by blast
  with h3 h4 h5 h6
  have "create_subscription ?S bob 11 (run calls1 db0)
     = Inl (HTTPException 400 ''User already has an active subscription'')"
    by auto
  with h1 h2 h3 h4 h5 h6 show ?thesis by simp
qed

subsection \<open>Create\<close>

lemma count_active_0_iff:
  "count_active d u = 0 \<longleftrightarrow>
     find (\<lambda>s. user_id s = u \<and> status s = Some ACTIVE) (subscriptions d) = None"
  by (auto simp: count_active_def find_None_iff filter_empty_conv)

lemma create_subscription_ready:
  assumes "find (\<lambda>u. u_id u = c_user_id subscription) (users d) = Some user"
    and "find (\<lambda>p. p_id p = c_plan_id subscription) (plans d) = Some plan"
    and "truthy (p_is_active plan)" and "count_active d (c_user_id subscription) = 0"
  shows "create_subscription subscription current_user utcnow d =
    (if representable utcnow (p_duration_days plan) then
       Inr (\<lparr>s_id = subscriptions_id_seq d, user_id = c_user_id subscription,
             plan_id = c_plan_id subscription, start_date = utcnow,
             end_date = utcnow + timedelta_of_days (p_duration_days plan),
             status = Some ACTIVE, cancelled_at = None\<rparr>,
            d\<lparr>subscriptions := subscriptions d @
                 [\<lparr>s_id = subscriptions_id_seq d, user_id = c_user_id subscription,
                   plan_id = c_plan_id subscription, start_date = utcnow,
                   end_date = utcnow + timedelta_of_days (p_duration_days plan),
                   status = Some ACTIVE, cancelled_at = None\<rparr>],
              subscriptions_id_seq := subscriptions_id_seq d + 1\<rparr>)
     else Inl OverflowError)"
  using assms
  by (simp add: create_subscription_def count_active_0_iff Let_def add_days_eq)

text \<open>
  C3 (amended). Create(userID, planID): if the user and the plan exist, the plan is
  active, the user has no Active subscription and \<open>now + plan.duration_days\<close> days is a
  representable datetime, the call appends and returns a new subscription with
  \<open>start_date = now\<close>, \<open>end_date = now + plan.duration_days\<close> days and status Active; it
  fails with NotFound (404) when the user or the plan is missing, and with Conflict (400)
  when both exist and the plan is inactive or the user already holds an Active
  subscription. When every precondition holds but the end date is not representable, the
  call raises \<open>OverflowError\<close> and persists nothing.
\<close>

theorem create_subscription_outcome:
  "(\<forall>user plan.
      find (\<lambda>u. u_id u = c_user_id subscription) (users d) = Some user \<and>
      find (\<lambda>p. p_id p = c_plan_id subscription) (plans d) = Some plan \<and>
      truthy (p_is_active plan) \<and> count_active d (c_user_id subscription) = 0 \<and>
      representable utcnow (p_duration_days plan) \<longrightarrow>
      (\<exists>new. create_subscription subscription current_user utcnow d =
                Inr (new, d\<lparr>subscriptions := subscriptions d @ [new],
                           subscriptions_id_seq := subscriptions_id_seq d + 1\<rparr>) \<and>
             user_id new = c_user_id subscription \<and> plan_id new = c_plan_id subscription \<and>
             start_date new = utcnow \<and>
             end_date new = utcnow + timedelta_of_days (p_duration_days plan) \<and>
             status new = Some ACTIVE \<and> cancelled_at new = None)) \<and>
   (find (\<lambda>u. u_id u = c_user_id subscription) (users d) = None \<or>
    find (\<lambda>p. p_id p = c_plan_id subscription) (plans d) = None \<longrightarrow>
      (\<exists>e. create_subscription subscription current_user utcnow d = Inl e \<and> is_NotFound e)) \<and>
   (\<forall>user plan.
      find (\<lambda>u. u_id u = c_user_id subscription) (users d) = Some user \<and>
      find (\<lambda>p. p_id p = c_plan_id subscription) (plans d) = Some plan \<and>
      (\<not> truthy (p_is_active plan) \<or> count_active d (c_user_id subscription) \<noteq> 0) \<longrightarrow>
      (\<exists>e. create_subscription subscription current_user utcnow d = Inl e \<and> is_Conflict e)) \<and>
   (\<forall>user plan.
      find (\<lambda>u. u_id u = c_user_id subscription) (users d) = Some user \<and>
      find (\<lambda>p. p_id p = c_plan_id subscription) (plans d) = Some plan \<and>
      truthy (p_is_active plan) \<and> count_active d (c_user_id subscription) = 0 \<and>
      \<not> representable utcnow (p_duration_days plan) \<longrightarrow>
      create_subscription subscription current_user utcnow d = Inl OverflowError \<and>
      state_after d (create_subscription subscription current_user utcnow d) = d)"
proof -
  have ok: "\<forall>user plan.
      find (\<lambda>u. u_id u = c_user_id subscription) (users d) = Some user \<and>
      find (\<lambda>p. p_id p = c_plan_id subscription) (plans d) = Some plan \<and>
      truthy (p_is_active plan) \<and> count_active d (c_user_id subscription) = 0 \<and>
      representable utcnow (p_duration_days plan) \<longrightarrow>
      (\<exists>new. create_subscription subscription current_user utcnow d =
                Inr (new, d\<lparr>subscriptions := subscriptions d @ [new],
                           subscriptions_id_seq := subscriptions_id_seq d + 1\<rparr>) \<and>
             user_id new = c_user_id subscription \<and> plan_id new = c_plan_id subscription \<and>
             start_date new = utcnow \<and>
             end_date new = utcnow + timedelta_of_days (p_duration_days plan) \<and>
             status new = Some ACTIVE \<and> cancelled_at new = None)"
    by (simp add: create_subscription_ready)
  have nf: "find (\<lambda>u. u_id u = c_user_id subscription) (users d) = None \<or>
    find (\<lambda>p. p_id p = c_plan_id subscription) (plans d) = None \<longrightarrow>
      (\<exists>e. create_subscription subscription current_user utcnow d = Inl e \<and> is_NotFound e)"
    by (auto simp: create_subscription_def split: option.splits)
  have cf: "\<forall>user plan.
      find (\<lambda>u. u_id u = c_user_id subscription) (users d) = Some user \<and>
      find (\<lambda>p. p_id p = c_plan_id subscription) (plans d) = Some plan \<and>
      (\<not> truthy (p_is_active plan) \<or> count_active d (c_user_id subscription) \<noteq> 0) \<longrightarrow>
      (\<exists>e. create_subscription subscription current_user utcnow d = Inl e \<and> is_Conflict e)"
    by (auto simp: create_subscription_def count_active_0_iff split: option.splits)
  have ov: "\<forall>user plan.
      find (\<lambda>u. u_id u = c_user_id subscription) (users d) = Some user \<and>
      find (\<lambda>p. p_id p = c_plan_id subscription) (plans d) = Some plan \<and>
      truthy (p_is_active plan) \<and> count_active d (c_user_id subscription) = 0 \<and>
      \<not> representable utcnow (p_duration_days plan) \<longrightarrow>
      create_subscription subscription current_user utcnow d = Inl OverflowError \<and>
      state_after d (create_subscription subscription current_user utcnow d) = d"
    by (simp add: create_subscription_ready state_after_def)
  from ok nf cf ov show ?thesis by blast
qed

theorem create_subscription_outcome_witness:
  "find (\<lambda>u. u_id u = 1) (users db0) = Some alice \<and>
   find (\<lambda>p. p_id p = 1) (plans db0) = Some monthly \<and>
   truthy (p_is_active monthly) \<and> count_active db0 1 = 0 \<and>
   representable 0 (p_duration_days monthly) \<and>
   create_subscription \<lparr>c_user_id = 1, c_plan_id = 1\<rparr> alice 0 db0 = Inr (sub1, db1) \<and>
   end_date sub1 = 0 + timedelta_of_days 30 \<and>
   find (\<lambda>u. u_id u = 7) (users db0) = None \<and>
   (\<exists>e. create_subscription \<lparr>c_user_id = 7, c_plan_id = 1\<rparr> alice 0 db0 = Inl e \<and> is_NotFound e) \<and>
   create_subscription \<lparr>c_user_id = 7, c_plan_id = 1\<rparr> alice 0 db0
     = Inl (HTTPException 404 ''User with ID 7 not found'') \<and>
   count_active db1 1 = 1 \<and>
   (\<exists>e. create_subscription \<lparr>c_user_id = 1, c_plan_id = 1\<rparr> alice 3 db1 = Inl e \<and> is_Conflict e) \<and>
   create_subscription \<lparr>c_user_id = 1, c_plan_id = 1\<rparr> alice 3 db1
     = Inl (HTTPException 400 ''User already has an active subscription'') \<and>
   find (\<lambda>p. p_id p = 3) (plans db5) = Some plan_long \<and>
   \<not> representable new_year_2026 (p_duration_days plan_long) \<and>
   create_subscription \<lparr>c_user_id = 1, c_plan_id = 3\<rparr> alice new_year_2026 db5
     = Inl OverflowError"
proof -
  let ?S = "\<lparr>c_user_id = 1, c_plan_id = 1\<rparr>"
  let ?T = "\<lparr>c_user_id = 7, c_plan_id = 1\<rparr>"
  let ?L = "\<lparr>c_user_id = 1, c_plan_id = 3\<rparr>"
  have u: "find (\<lambda>u. u_id u = 1) (users db0) = Some alice"
    and u1: "find (\<lambda>u. u_id u = 1) (users db1) = Some alice"
    and u5: "find (\<lambda>u. u_id u = 1) (users db5) = Some alice"
    by (simp_all add: db0_def db1_def db5_def alice_def)
  have p: "find (\<lambda>p. p_id p = 1) (plans db0) = Some monthly"
    and p1: "find (\<lambda>p. p_id p = 1) (plans db1) = Some monthly"
    and p5: "find (\<lambda>p. p_id p = 3) (plans db5) = Some plan_long"
    by (simp_all add: db0_def db1_def db5_def monthly_def plan_long_def)
  have a: "truthy (p_is_active monthly)" and a5: "truthy (p_is_active plan_long)"
    by (simp_all add: truthy_def monthly_def plan_long_def)
  have c0: "count_active db0 1 = 0" and c5: "count_active db5 1 = 0"
    by (simp_all add: count_active_def db0_def db5_def)
  have c1: "count_active db1 1 = 1" by (simp add: count_active_def db1_def sub1_def)
  have n: "find (\<lambda>u. u_id u = 7) (users db0) = None"
    by (simp add: db0_def alice_def bob_def)
  have r: "representable 0 (p_duration_days monthly)"
    by (simp add: representable_def is_datetime_def datetime_max_def timedelta_of_days_def
        microseconds_per_day_def monthly_def)
  have nr: "\<not> representable new_year_2026 (p_duration_days plan_long)"
    by (simp add: representable_def is_datetime_def datetime_max_def timedelta_of_days_def
        microseconds_per_day_def plan_long_def new_year_2026_def)
  from create_subscription_outcome [of ?S db0 0 alice] u p a c0 r
  obtain new where new: "create_subscription ?S alice 0 db0 =
                Inr (new, db0\<lparr>subscriptions := subscriptions db0 @ [new],
                           subscriptions_id_seq := subscriptions_id_seq db0 + 1\<rparr>)"
    "user_id new = 1" "plan_id new = 1" "start_date new = 0"
    "end_date new = 0 + timedelta_of_days (p_duration_days monthly)"
    "status new = Some ACTIVE" "cancelled_at new = None"
    by auto
  have "create_subscription ?S alice 0 db0 = Inr (sub1, db1)"
    by (simp add: create_subscription_def add_days_eq representable_def is_datetime_def
        datetime_max_def db0_def db1_def sub1_def alice_def bob_def monthly_def truthy_def
        timedelta_of_days_def microseconds_per_day_def Let_def)
  moreover from create_subscription_outcome [of ?T db0 0 alice] n
  have "\<exists>e. create_subscription ?T alice 0 db0 = Inl e \<and> is_NotFound e" by simp
  moreover from create_subscription_outcome [of ?S db1 3 alice] u1 p1 c1
  have "\<exists>e. create_subscription ?S alice 3 db1 = Inl e \<and> is_Conflict e" by simp
  moreover from create_subscription_outcome [of ?L db5 new_year_2026 alice] u5 p5 a5 c5 nr
  have "create_subscription ?L alice new_year_2026 db5 = Inl OverflowError" by simp
  moreover have "end_date sub1 = 0 + timedelta_of_days 30"
    by (simp add: sub1_def timedelta_of_days_def microseconds_per_day_def)
  moreover have "create_subscription ?T alice 0 db0
     = Inl (HTTPException 404 ''User with ID 7 not found'')"
    by (simp add: create_subscription_def db0_def alice_def bob_def str_int_7)
  moreover have "create_subscription ?S alice 3 db1
     = Inl (HTTPException 400 ''User already has an active subscription'')"
    by (simp add: create_subscription_def db1_def sub1_def alice_def bob_def monthly_def
        truthy_def)
  ultimately show ?thesis using u p a c0 n c1 r p5 nr by simp
qed

theorem create_overflow_counterexample:
  "find (\<lambda>u. u_id u = 1) (users db5) = Some alice \<and>
   find (\<lambda>p. p_id p = 3) (plans db5) = Some plan_long \<and>
   truthy (p_is_active plan_long) \<and> p_duration_days plan_long = 3000000 \<and>
   count_active db5 1 = 0 \<and> is_datetime new_year_2026 \<and>
   create_subscription \<lparr>c_user_id = 1, c_plan_id = 3\<rparr> alice new_year_2026 db5
     = Inl OverflowError \<and>
   \<not> is_NotFound OverflowError \<and> \<not> is_Conflict OverflowError \<and>
   state_after db5
     (create_subscription \<lparr>c_user_id = 1, c_plan_id = 3\<rparr> alice new_year_2026 db5) = db5"
  by (simp add: create_subscription_def state_after_def add_days_eq representable_def
      is_datetime_def datetime_max_def timedelta_of_days_def microseconds_per_day_def
      count_active_def truthy_def db5_def db0_def alice_def monthly_def plan_long_def
      new_year_2026_def)

subsection \<open>Create has no ownership check\<close>

text \<open>
  C9 (amended). Create performs no ownership check: for every authenticated active
  requester, every existing user without an Active subscription and every existing active
  plan whose end date \<open>now + duration_days\<close> days is a representable datetime, Create
  succeeds, whoever the requester is (its result never depends on the requester), and
  Create never fails with Forbidden; Cancel and the update route answer Forbidden (403)
  to a requester who is neither the owner nor an administrator.
\<close>

theorem create_ignores_requester:
  "(\<forall>user plan.
      get_current_active_user current_user = Inr current_user \<and>
      find (\<lambda>u. u_id u = c_user_id subscription) (users d) = Some user \<and>
      find (\<lambda>p. p_id p = c_plan_id subscription) (plans d) = Some plan \<and>
      truthy (p_is_active plan) \<and> count_active d (c_user_id subscription) = 0 \<and>
      representable utcnow (p_duration_days plan) \<longrightarrow>
      (\<exists>new d'. create_subscription subscription current_user utcnow d = Inr (new, d') \<and>
                user_id new = c_user_id subscription \<and> status new = Some ACTIVE \<and>
                new \<in> set (subscriptions d'))) \<and>
   (\<forall>e. create_subscription subscription current_user utcnow d = Inl e \<longrightarrow> \<not> is_Forbidden e) \<and>
   create_subscription subscription current_user utcnow d =
     create_subscription subscription other_user utcnow d \<and>
   (\<forall>s. find (\<lambda>s. s_id s = subscription_id) (subscriptions d) = Some s \<and>
        u_id current_user \<noteq> user_id s \<and> \<not> truthy (u_is_admin current_user) \<longrightarrow>
        cancel_subscription subscription_id current_user utcnow d =
          Inl (HTTPException 403 ''Not authorized to access this resource'') \<and>
        update_subscription subscription_id subscription_update current_user now1 now2 now3 d =
          Inl (HTTPException 403 ''Not authorized to access this resource''))"
proof -
  have ok: "\<forall>user plan.
      get_current_active_user current_user = Inr current_user \<and>
      find (\<lambda>u. u_id u = c_user_id subscription) (users d) = Some user \<and>
      find (\<lambda>p. p_id p = c_plan_id subscription) (plans d) = Some plan \<and>
      truthy (p_is_active plan) \<and> count_active d (c_user_id subscription) = 0 \<and>
      representable utcnow (p_duration_days plan) \<longrightarrow>
      (\<exists>new d'. create_subscription subscription current_user utcnow d = Inr (new, d') \<and>
                user_id new = c_user_id subscription \<and> status new = Some ACTIVE \<and>
                new \<in> set (subscriptions d'))"
    by (simp add: create_subscription_ready)
  have nf: "\<forall>e. create_subscription subscription current_user utcnow d = Inl e \<longrightarrow>
      \<not> is_Forbidden e"
    by (auto simp: create_subscription_def add_days_eq Let_def
        split: option.splits if_splits)
  have same: "create_subscription subscription current_user utcnow d =
     create_subscription subscription other_user utcnow d"
    by (simp add: create_subscription_def)
  have fb: "\<forall>s. find (\<lambda>s. s_id s = subscription_id) (subscriptions d) = Some s \<and>
        u_id current_user \<noteq> user_id s \<and> \<not> truthy (u_is_admin current_user) \<longrightarrow>
        cancel_subscription subscription_id current_user utcnow d =
          Inl (HTTPException 403 ''Not authorized to access this resource'') \<and>
        update_subscription subscription_id subscription_update current_user now1 now2 now3 d =
          Inl (HTTPException 403 ''Not authorized to access this resource'')"
    by (auto simp: cancel_subscription_def update_subscription_def)
  from ok nf same fb show ?thesis by blast
qed

theorem create_ignores_requester_witness:
  "get_current_active_user bob = Inr bob \<and>
   find (\<lambda>u. u_id u = 1) (users db0) = Some alice \<and>
   find (\<lambda>p. p_id p = 1) (plans db0) = Some monthly \<and>
   truthy (p_is_active monthly) \<and> count_active db0 1 = 0 \<and>
   representable 0 (p_duration_days monthly) \<and>
   u_id bob \<noteq> u_id alice \<and> \<not> truthy (u_is_admin bob) \<and>
   create_subscription \<lparr>c_user_id = 1, c_plan_id = 1\<rparr> bob 0 db0 = Inr (sub1, db1) \<and>
   find (\<lambda>s. s_id s = 1) (subscriptions db1) = Some sub1 \<and>
   u_id bob \<noteq> user_id sub1 \<and>
   cancel_subscription 1 bob 4 db1 =
     Inl (HTTPException 403 ''Not authorized to access this resource'') \<and>
   update_subscription 1 \<lparr>upd_plan_id = None, upd_status = Some (Some CANCELLED)\<rparr> bob 4 4 4 db1 =
     Inl (HTTPException 403 ''Not authorized to access this resource'')"
proof -
  let ?S = "\<lparr>c_user_id = 1, c_plan_id = 1\<rparr>"
  let ?U = "\<lparr>upd_plan_id = None, upd_status = Some (Some CANCELLED)\<rparr>"
  have g: "get_current_active_user bob = Inr bob"
    by (simp add: get_current_active_user_def bob_def truthy_def)
  have u: "find (\<lambda>u. u_id u = 1) (users db0) = Some alice"
    by (simp add: db0_def alice_def)
  have p: "find (\<lambda>p. p_id p = 1) (plans db0) = Some monthly"
    by (simp add: db0_def monthly_def)
  have a: "truthy (p_is_active monthly)" by (simp add: truthy_def monthly_def)
  have c0: "count_active db0 1 = 0" by (simp add: count_active_def db0_def)
  have r: "representable 0 (p_duration_days monthly)"
    by (simp add: representable_def is_datetime_def datetime_max_def timedelta_of_days_def
        microseconds_per_day_def monthly_def)
  have nb: "u_id bob \<noteq> u_id alice" "\<not> truthy (u_is_admin bob)" "u_id bob \<noteq> user_id sub1"
    by (simp_all add: bob_def alice_def truthy_def sub1_def)
  have f: "find (\<lambda>s. s_id s = 1) (subscriptions db1) = Some sub1"
    by (simp add: db1_def sub1_def)
  have same: "create_subscription ?S bob 0 db0 = create_subscription ?S alice 0 db0"
    using create_ignores_requester [of bob ?S db0 0 alice] by blast
  have "create_subscription ?S alice 0 db0 = Inr (sub1, db1)"
    by (simp add: create_subscription_def add_days_eq representable_def is_datetime_def
        datetime_max_def db0_def db1_def sub1_def alice_def bob_def monthly_def truthy_def
        timedelta_of_days_def microseconds_per_day_def Let_def)
  with same have c: "create_subscription ?S bob 0 db0 = Inr (sub1, db1)" by simp
  from create_ignores_requester [of bob ?S db1 4 bob 1 ?U 4 4 4] f nb
  have "cancel_subscription 1 bob 4 db1 =
          Inl (HTTPException 403 ''Not authorized to access this resource'') \<and>
        update_subscription 1 ?U bob 4 4 4 db1 =
          Inl (HTTPException 403 ''Not authorized to access this resource'')"
    by blast
  with g u p a c0 r nb c f show ?thesis by simp
qed

theorem create_by_stranger_overflow_counterexample:
  "get_current_active_user bob = Inr bob \<and> u_id bob \<noteq> u_id alice \<and>
   \<not> truthy (u_is_admin bob) \<and>
   find (\<lambda>u. u_id u = 1) (users db5) = Some alice \<and> count_active db5 1 = 0 \<and>
   find (\<lambda>p. p_id p = 3) (plans db5) = Some plan_long \<and> truthy (p_is_active plan_long) \<and>
   is_datetime new_year_2026 \<and>
   create_subscription \<lparr>c_user_id = 1, c_plan_id = 3\<rparr> bob new_year_2026 db5
     = Inl OverflowError \<and>
   subscriptions (state_after db5
     (create_subscription \<lparr>c_user_id = 1, c_plan_id = 3\<rparr> bob new_year_2026 db5)) = []"
  by (simp add: create_subscription_def state_after_def add_days_eq representable_def
      is_datetime_def datetime_max_def timedelta_of_days_def microseconds_per_day_def
      count_active_def truthy_def db5_def db0_def alice_def bob_def monthly_def plan_long_def
      new_year_2026_def get_current_active_user_def)

subsection \<open>Cancel\<close>

lemma find_split:
  "find P xs = Some x \<Longrightarrow>
     \<exists>pre post. xs = pre @ x # post \<and> update_first P f xs = pre @ f x # post"
proof (induction xs)
  case Nil
  then show ?case by simp
next
  case (Cons y ys)
  show ?case
  proof (cases "P y")
    case True
    with Cons.prems have "y = x" by simp
    with True have "y # ys = [] @ x # ys \<and> update_first P f (y # ys) = [] @ f x # ys"
      by simp
    then show ?thesis by blast
  next
    case False
    with Cons obtain pre post where
      "ys = pre @ x # post" "update_first P f ys = pre @ f x # post" by auto
    with False have "y # ys = (y # pre) @ x # post \<and>
        update_first P f (y # ys) = (y # pre) @ f x # post" by simp
    then show ?thesis by blast
  qed
qed

lemma find_Some_P: "find P xs = Some x \<Longrightarrow> P x"
  by (induction xs) (auto split: if_splits)

lemma find_update_first_hit:
  "find P xs = Some x \<Longrightarrow> P (f x) \<Longrightarrow> find P (update_first P f xs) = Some (f x)"
  by (induction xs) (auto split: if_splits)

lemma cancel_success:
  assumes "find (\<lambda>r. s_id r = sid) (subscriptions d) = Some s"
    and "u_id cu = user_id s \<or> truthy (u_is_admin cu)"
    and "status s = Some ACTIVE"
  shows "cancel_subscription sid cu now d =
           Inr ((), d\<lparr>subscriptions := update_first (\<lambda>r. s_id r = sid)
                   (\<lambda>r. r\<lparr>status := Some CANCELLED, cancelled_at := Some now\<rparr>)
                   (subscriptions d)\<rparr>)"
  using assms by (auto simp: cancel_subscription_def)

lemma cancel_refused:
  assumes "find (\<lambda>r. s_id r = sid) (subscriptions d) = Some s"
    and "u_id cu = user_id s \<or> truthy (u_is_admin cu)"
    and "status s = Some st" and "st \<noteq> ACTIVE"
  shows "cancel_subscription sid cu now d =
           Inl (HTTPException 400 (''Subscription is already '' @ status_value st))"
  using assms by (auto simp: cancel_subscription_def)

text \<open>
  C4. Cancel(subscriptionID, requester), for an existing subscription and a requester who
  is its owner or an administrator: the call succeeds exactly when the current status is
  Active, and then the row has status Cancelled and \<open>cancelled_at = now\<close>; when the
  status is Cancelled it fails with Conflict (400) and the message ``Subscription is
  already CANCELLED'', when it is Expired with Conflict (400) and the message
  ``Subscription is already EXPIRED'', and in both cases the database is as before. So a
  second Cancel (by any authorised requester, at any time) returns ``Subscription is
  already CANCELLED'' and leaves the state, \<open>cancelled_at\<close> included, as the first call
  set it.
\<close>

theorem cancel_subscription_outcome:
  assumes "find (\<lambda>r. s_id r = sid) (subscriptions d) = Some s"
    and "u_id cu = user_id s \<or> truthy (u_is_admin cu)"
  shows "((\<exists>d'. cancel_subscription sid cu now d = Inr ((), d')) \<longleftrightarrow> status s = Some ACTIVE) \<and>
         (status s = Some ACTIVE \<longrightarrow>
            find (\<lambda>r. s_id r = sid)
              (subscriptions (state_after d (cancel_subscription sid cu now d)))
              = Some (s\<lparr>status := Some CANCELLED, cancelled_at := Some now\<rparr>) \<and>
            (\<forall>cu' now'. u_id cu' = user_id s \<or> truthy (u_is_admin cu') \<longrightarrow>
               cancel_subscription sid cu' now' (state_after d (cancel_subscription sid cu now d))
                 = Inl (HTTPException 400 ''Subscription is already CANCELLED'') \<and>
               state_after (state_after d (cancel_subscription sid cu now d))
                 (cancel_subscription sid cu' now' (state_after d (cancel_subscription sid cu now d)))
                 = state_after d (cancel_subscription sid cu now d))) \<and>
         (status s = Some CANCELLED \<longrightarrow>
            cancel_subscription sid cu now d =
              Inl (HTTPException 400 ''Subscription is already CANCELLED'') \<and>
            state_after d (cancel_subscription sid cu now d) = d) \<and>
         (status s = Some EXPIRED \<longrightarrow>
            cancel_subscription sid cu now d =
              Inl (HTTPException 400 ''Subscription is already EXPIRED'') \<and>
            state_after d (cancel_subscription sid cu now d) = d)"
proof -
  let ?c = "\<lambda>r. r\<lparr>status := Some CANCELLED, cancelled_at := Some now\<rparr>"
  let ?d' = "d\<lparr>subscriptions := update_first (\<lambda>r. s_id r = sid) ?c (subscriptions d)\<rparr>"
  have iff: "(\<exists>d'. cancel_subscription sid cu now d = Inr ((), d')) \<longleftrightarrow> status s = Some ACTIVE"
    using assms by (auto simp: cancel_subscription_def split: option.splits)
  have refused: "status s = Some CANCELLED \<longrightarrow>
            cancel_subscription sid cu now d =
              Inl (HTTPException 400 ''Subscription is already CANCELLED'') \<and>
            state_after d (cancel_subscription sid cu now d) = d"
    using cancel_refused [OF assms, of CANCELLED now] by (simp add: state_after_def)
  have expired: "status s = Some EXPIRED \<longrightarrow>
            cancel_subscription sid cu now d =
              Inl (HTTPException 400 ''Subscription is already EXPIRED'') \<and>
            state_after d (cancel_subscription sid cu now d) = d"
    using cancel_refused [OF assms, of EXPIRED now] by (simp add: state_after_def)
  have twice: "find (\<lambda>r. s_id r = sid)
              (subscriptions (state_after d (cancel_subscription sid cu now d)))
              = Some (?c s) \<and>
            (\<forall>cu' now'. u_id cu' = user_id s \<or> truthy (u_is_admin cu') \<longrightarrow>
               cancel_subscription sid cu' now' (state_after d (cancel_subscription sid cu now d))
                 = Inl (HTTPException 400 ''Subscription is already CANCELLED'') \<and>
               state_after (state_after d (cancel_subscription sid cu now d))
                 (cancel_subscription sid cu' now' (state_after d (cancel_subscription sid cu now d)))
                 = state_after d (cancel_subscription sid cu now d))"
    if act: "status s = Some ACTIVE"
  proof -
    have first: "state_after d (cancel_subscription sid cu now d) = ?d'"
      using cancel_success [OF assms act] by (simp add: state_after_def)
    have found: "find (\<lambda>r. s_id r = sid) (subscriptions ?d') = Some (?c s)"
      using find_update_first [OF assms(1), of ?c] by simp
    have "cancel_subscription sid cu' now' ?d'
            = Inl (HTTPException 400 ''Subscription is already CANCELLED'')"
      if "u_id cu' = user_id s \<or> truthy (u_is_admin cu')" for cu' now'
      using cancel_refused [OF found, of cu' CANCELLED now'] that by simp
    then show ?thesis
      unfolding first using found by (simp add: state_after_def)
  qed
  from iff refused expired twice show ?thesis by blast
qed

theorem cancel_subscription_outcome_witness:
  "find (\<lambda>r. s_id r = 1) (subscriptions db1) = Some sub1 \<and> u_id alice = user_id sub1 \<and>
   status sub1 = Some ACTIVE \<and>
   cancel_subscription 1 alice 4 db1 = Inr ((), db1_cancelled) \<and>
   find (\<lambda>r. s_id r = 1) (subscriptions db1_cancelled) = Some sub1_cancelled \<and>
   status sub1_cancelled = Some CANCELLED \<and> cancelled_at sub1_cancelled = Some 4 \<and>
   cancel_subscription 1 alice 9 db1_cancelled =
     Inl (HTTPException 400 ''Subscription is already CANCELLED'') \<and>
   state_after db1_cancelled (cancel_subscription 1 alice 9 db1_cancelled) = db1_cancelled \<and>
   find (\<lambda>r. s_id r = 2) (subscriptions db3_swept) = Some sub2_expired \<and>
   u_id bob = user_id sub2_expired \<and> status sub2_expired = Some EXPIRED \<and>
   cancel_subscription 2 bob 11 db3_swept =
     Inl (HTTPException 400 ''Subscription is already EXPIRED'') \<and>
   state_after db3_swept (cancel_subscription 2 bob 11 db3_swept) = db3_swept"
proof -
  have fe: "find (\<lambda>r. s_id r = 2) (subscriptions db3_swept) = Some sub2_expired"
    by (simp add: db3_swept_def db3_def sub1_def sub2_def sub2_expired_def)
  have oe: "u_id bob = user_id sub2_expired" by (simp add: bob_def sub2_def sub2_expired_def)
  have se: "status sub2_expired = Some EXPIRED" by (simp add: sub2_expired_def)
  from cancel_subscription_outcome [OF fe disjI1 [OF oe], of 11] se
  have ex: "cancel_subscription 2 bob 11 db3_swept =
     Inl (HTTPException 400 ''Subscription is already EXPIRED'') \<and>
   state_after db3_swept (cancel_subscription 2 bob 11 db3_swept) = db3_swept"
    by blast
  have f: "find (\<lambda>r. s_id r = 1) (subscriptions db1) = Some sub1"
    by (simp add: db1_def sub1_def)
  have o: "u_id alice = user_id sub1" by (simp add: alice_def sub1_def)
  have a: "status sub1 = Some ACTIVE" by (simp add: sub1_def)
  have c: "cancel_subscription 1 alice 4 db1 = Inr ((), db1_cancelled)"
    by (simp add: cancel_subscription_def db1_def db1_cancelled_def sub1_cancelled_def sub1_def
        alice_def)
  then have s: "state_after db1 (cancel_subscription 1 alice 4 db1) = db1_cancelled"
    by (simp add: state_after_def)
  have sc: "sub1\<lparr>status := Some CANCELLED, cancelled_at := Some 4\<rparr> = sub1_cancelled"
    by (simp add: sub1_cancelled_def)
  from cancel_subscription_outcome [OF f disjI1 [OF o], of 4] a o
  have "find (\<lambda>r. s_id r = 1) (subscriptions db1_cancelled) = Some sub1_cancelled \<and>
        cancel_subscription 1 alice 9 db1_cancelled =
          Inl (HTTPException 400 ''Subscription is already CANCELLED'') \<and>
        state_after db1_cancelled (cancel_subscription 1 alice 9 db1_cancelled) = db1_cancelled"
    unfolding s sc by blast
  with f o a c fe oe se ex show ?thesis by (simp add: sub1_cancelled_def state_after_def)
qed

subsection \<open>What update and cancel leave alone\<close>

lemma setattr_all_frame:
  "s_id (setattr_all ud s) = s_id s \<and> user_id (setattr_all ud s) = user_id s \<and>
   start_date (setattr_all ud s) = start_date s"
  by (simp add: setattr_all_def Let_def split: option.splits)

lemma update_success_shape:
  assumes "find (\<lambda>r. s_id r = sid) (subscriptions d) = Some s"
    and "update_subscription sid upd cu now1 now2 now3 d = Inr (s', d')"
  shows "\<exists>ud. s' = setattr_all ud s \<and>
           d' = d\<lparr>subscriptions := update_first (\<lambda>r. s_id r = sid) (\<lambda>r. s') (subscriptions d)\<rparr>"
  using assms
  by (auto simp: update_subscription_def Let_def split: if_splits sum.splits)

text \<open>
  C10. Frame: a successful update (ChangePlan / SetStatus) of an existing subscription
  leaves its id, \<open>user_id\<close> and \<open>start_date\<close> as they were, and a successful Cancel
  leaves its id, \<open>user_id\<close>, \<open>plan_id\<close>, \<open>start_date\<close> and \<open>end_date\<close> as they were; in
  both cases the other rows, the users and the plans are untouched.
\<close>

theorem update_and_cancel_frame:
  assumes "find (\<lambda>r. s_id r = sid) (subscriptions d) = Some s"
  shows "(\<forall>s' d'. update_subscription sid upd cu now1 now2 now3 d = Inr (s', d') \<longrightarrow>
            s_id s' = s_id s \<and> user_id s' = user_id s \<and> start_date s' = start_date s \<and>
            find (\<lambda>r. s_id r = sid) (subscriptions d') = Some s' \<and>
            (\<exists>pre post. subscriptions d = pre @ s # post \<and> subscriptions d' = pre @ s' # post) \<and>
            users d' = users d \<and> plans d' = plans d) \<and>
         (\<forall>d'. cancel_subscription sid cu now d = Inr ((), d') \<longrightarrow>
            (\<exists>s'. find (\<lambda>r. s_id r = sid) (subscriptions d') = Some s' \<and>
               s_id s' = s_id s \<and> user_id s' = user_id s \<and> plan_id s' = plan_id s \<and>
               start_date s' = start_date s \<and> end_date s' = end_date s \<and>
               (\<exists>pre post. subscriptions d = pre @ s # post \<and> subscriptions d' = pre @ s' # post)) \<and>
            users d' = users d \<and> plans d' = plans d)"
proof -
  have upd: "s_id s' = s_id s \<and> user_id s' = user_id s \<and> start_date s' = start_date s \<and>
            find (\<lambda>r. s_id r = sid) (subscriptions d') = Some s' \<and>
            (\<exists>pre post. subscriptions d = pre @ s # post \<and> subscriptions d' = pre @ s' # post) \<and>
            users d' = users d \<and> plans d' = plans d"
    if ok: "update_subscription sid upd cu now1 now2 now3 d = Inr (s', d')" for s' d'
  proof -
    from update_success_shape [OF assms ok] obtain ud where
      s': "s' = setattr_all ud s" and
      d': "d' = d\<lparr>subscriptions := update_first (\<lambda>r. s_id r = sid) (\<lambda>r. s') (subscriptions d)\<rparr>"
      by blast
    have frame: "s_id s' = s_id s" "user_id s' = user_id s" "start_date s' = start_date s"
      using setattr_all_frame [of ud s] s' by simp_all
    have "s_id s = sid" using find_Some_P [OF assms] .
    with frame have "s_id s' = sid" by simp
    then have found: "find (\<lambda>r. s_id r = sid) (subscriptions d') = Some s'"
      using find_update_first_hit [OF assms, of "\<lambda>r. s'"] d' by simp
    from find_split [OF assms, of "\<lambda>r. s'"] d'
    have "\<exists>pre post. subscriptions d = pre @ s # post \<and> subscriptions d' = pre @ s' # post"
      by simp
    with frame found d' show ?thesis by simp
  qed
  have can: "(\<exists>s'. find (\<lambda>r. s_id r = sid) (subscriptions d') = Some s' \<and>
               s_id s' = s_id s \<and> user_id s' = user_id s \<and> plan_id s' = plan_id s \<and>
               start_date s' = start_date s \<and> end_date s' = end_date s \<and>
               (\<exists>pre post. subscriptions d = pre @ s # post \<and> subscriptions d' = pre @ s' # post)) \<and>
            users d' = users d \<and> plans d' = plans d"
    if ok: "cancel_subscription sid cu now d = Inr ((), d')" for d'
  proof -
    let ?c = "\<lambda>r. r\<lparr>status := Some CANCELLED, cancelled_at := Some now\<rparr>"
    from ok assms have d': "d' = d\<lparr>subscriptions :=
        update_first (\<lambda>r. s_id r = sid) ?c (subscriptions d)\<rparr>"
      by (auto simp: cancel_subscription_def split: if_splits option.splits)
    have found: "find (\<lambda>r. s_id r = sid) (subscriptions d') = Some (?c s)"
      using find_update_first [OF assms, of ?c] d' by simp
    from find_split [OF assms, of ?c] d'
    have "\<exists>pre post. subscriptions d = pre @ s # post \<and> subscriptions d' = pre @ ?c s # post"
      by simp
    with found d' show ?thesis by simp
  qed
  from upd can show ?thesis by blast
qed

theorem update_and_cancel_frame_witness:
  "find (\<lambda>r. s_id r = 1) (subscriptions db2) = Some sub1 \<and>
   update_subscription 1 \<lparr>upd_plan_id = Some (Some 2), upd_status = Some (Some CANCELLED)\<rparr>
     alice 1728000000000 1728000000000 1728000000007 db2
     = Inr (sub1_changed_cancelled, db2\<lparr>subscriptions := [sub1_changed_cancelled]\<rparr>) \<and>
   s_id sub1_changed_cancelled = s_id sub1 \<and> user_id sub1_changed_cancelled = user_id sub1 \<and>
   start_date sub1_changed_cancelled = start_date sub1 \<and>
   find (\<lambda>r. s_id r = 1) (subscriptions db1) = Some sub1 \<and>
   cancel_subscription 1 alice 4 db1 = Inr ((), db1_cancelled) \<and>
   find (\<lambda>r. s_id r = 1) (subscriptions db1_cancelled) = Some sub1_cancelled \<and>
   s_id sub1_cancelled = s_id sub1 \<and> user_id sub1_cancelled = user_id sub1 \<and>
   plan_id sub1_cancelled = plan_id sub1 \<and> start_date sub1_cancelled = start_date sub1 \<and>
   end_date sub1_cancelled = end_date sub1"
proof -
  let ?U = "\<lparr>upd_plan_id = Some (Some 2), upd_status = Some (Some CANCELLED)\<rparr>"
  have f2: "find (\<lambda>r. s_id r = 1) (subscriptions db2) = Some sub1"
    by (simp add: db2_def db1_def sub1_def)
  have f1: "find (\<lambda>r. s_id r = 1) (subscriptions db1) = Some sub1"
    by (simp add: db1_def sub1_def)
  have u: "update_subscription 1 ?U alice 1728000000000 1728000000000 1728000000007 db2
     = Inr (sub1_changed_cancelled, db2\<lparr>subscriptions := [sub1_changed_cancelled]\<rparr>)"
    by (simp add: update_subscription_def plan_entries_def setattr_all_def db2_def db1_def
        sub1_def sub1_changed_cancelled_def alice_def monthly_def plan_b_def truthy_def
        timedelta_of_days_def days_of_def microseconds_per_day_def Let_def add_days_eq
        representable_def is_datetime_def datetime_max_def)
  have c: "cancel_subscription 1 alice 4 db1 = Inr ((), db1_cancelled)"
    by (simp add: cancel_subscription_def db1_def db1_cancelled_def sub1_cancelled_def sub1_def
        alice_def)
  from update_and_cancel_frame [OF f2, of ?U alice 1728000000000 1728000000000 1728000000007 4] u
  have fu: "s_id sub1_changed_cancelled = s_id sub1 \<and>
        user_id sub1_changed_cancelled = user_id sub1 \<and>
        start_date sub1_changed_cancelled = start_date sub1"
    by blast
  from update_and_cancel_frame [OF f1, of ?U alice 0 0 0 4] c
  obtain s' where s': "find (\<lambda>r. s_id r = 1) (subscriptions db1_cancelled) = Some s'"
    "s_id s' = s_id sub1" "user_id s' = user_id sub1" "plan_id s' = plan_id sub1"
    "start_date s' = start_date sub1" "end_date s' = end_date sub1"
    by blast
  have "find (\<lambda>r. s_id r = 1) (subscriptions db1_cancelled) = Some sub1_cancelled"
    by (simp add: db1_cancelled_def sub1_cancelled_def sub1_def)
  with s' have "s' = sub1_cancelled" by simp
  with s' f2 f1 u c fu show ?thesis by simp
qed

subsection \<open>Plan change carries the remaining days forward\<close>

lemma update_success_found:
  assumes "find (\<lambda>r. s_id r = sid) (subscriptions d) = Some s"
    and "update_subscription sid upd cu now1 now2 now3 d = Inr (s', d')"
  shows "find (\<lambda>r. s_id r = sid) (subscriptions d') = Some s'"
proof -
  from update_success_shape [OF assms] obtain ud where
    s': "s' = setattr_all ud s" and
    d': "d' = d\<lparr>subscriptions := update_first (\<lambda>r. s_id r = sid) (\<lambda>r. s') (subscriptions d)\<rparr>"
    by blast
  have "s_id s = sid" using find_Some_P [OF assms(1)] .
  with setattr_all_frame [of ud s] s' have "s_id s' = sid" by simp
  then show ?thesis
    using find_update_first_hit [OF assms(1), of "\<lambda>r. s'"] d' by simp
qed

lemma days_of_floor:
  "timedelta_of_days (days_of td) \<le> td \<and> td < timedelta_of_days (days_of td + 1)"
proof -
  define q where "q = td div 86400000000"
  define r where "r = td mod 86400000000"
  have "td = 86400000000 * q + r" by (simp add: q_def r_def)
  moreover have "0 \<le> r" and "r < 86400000000" by (simp_all add: r_def)
  ultimately have "q * 86400000000 \<le> td \<and> td < (q + 1) * 86400000000" by arith
  then show ?thesis
    by (simp add: timedelta_of_days_def days_of_def microseconds_per_day_def q_def)
qed

lemma setattr_all_plan_id: "ud_plan_id ud = Some p \<Longrightarrow> plan_id (setattr_all ud s) = p"
  by (simp add: setattr_all_def Let_def split: option.splits)

lemma setattr_all_end_date: "ud_end_date ud = Some e \<Longrightarrow> end_date (setattr_all ud s) = e"
  by (simp add: setattr_all_def Let_def split: option.splits)

lemma update_subscription_authorised:
  assumes "find (\<lambda>r. s_id r = sid) (subscriptions d) = Some s"
    and "u_id cu = user_id s \<or> truthy (u_is_admin cu)"
    and "plan_entries upd s now1 now2 d = Inr ud"
  shows "update_subscription sid upd cu now1 now2 now3 d =
     Inr (setattr_all (if ud_status ud = Some (Some CANCELLED)
                       then ud\<lparr>ud_cancelled_at := Some now3\<rparr> else ud) s,
          d\<lparr>subscriptions := update_first (\<lambda>r. s_id r = sid)
              (\<lambda>r. setattr_all (if ud_status ud = Some (Some CANCELLED)
                       then ud\<lparr>ud_cancelled_at := Some now3\<rparr> else ud) s)
              (subscriptions d)\<rparr>)"
proof -
  from assms(2) have "\<not> (u_id cu \<noteq> user_id s \<and> \<not> truthy (u_is_admin cu))" by blast
  then show ?thesis
    unfolding update_subscription_def by (simp add: assms(1,3) Let_def)
qed

lemma plan_entries_found:
  assumes "upd_plan_id upd = Some (Some pid)"
    and "find (\<lambda>p. p_id p = pid) (plans d) = Some plan"
    and "truthy (p_is_active plan)"
  shows "plan_entries upd s now1 now2 d =
    (if representable now2 (p_duration_days plan + max 0 (days_of (end_date s - now1))) then
       Inr \<lparr>ud_plan_id = Some pid, ud_status = upd_status upd,
            ud_end_date = Some (now2 + timedelta_of_days
              (p_duration_days plan + max 0 (days_of (end_date s - now1)))),
            ud_cancelled_at = None\<rparr>
     else Inl OverflowError)"
  using assms by (simp add: plan_entries_def Let_def max_def add_days_eq)

lemma update_subscription_raises:
  assumes "find (\<lambda>r. s_id r = sid) (subscriptions d) = Some s"
    and "u_id cu = user_id s \<or> truthy (u_is_admin cu)"
    and "plan_entries upd s now1 now2 d = Inl e"
  shows "update_subscription sid upd cu now1 now2 now3 d = Inl e"
  using assms by (auto simp: update_subscription_def)

lemma find_map_same:
  "(\<And>x. P (h x) = P x) \<Longrightarrow> find P (map h xs) = map_option h (find P xs)"
  by (induction xs) auto

lemma plan_entries_reprice:
  "plan_entries upd s now1 now2 (reprice g d) = plan_entries upd s now1 now2 d"
proof -
  have "find (\<lambda>p. p_id p = i) (plans (reprice g d)) =
          map_option (\<lambda>p. p\<lparr>p_price := g p\<rparr>) (find (\<lambda>p. p_id p = i) (plans d))" for i
    unfolding reprice_def by (simp add: find_map_same)
  then show ?thesis
    by (simp add: plan_entries_def Let_def split: option.splits)
qed

lemma update_subscription_reprice:
  "update_subscription sid upd cu now1 now2 now3 (reprice g d) =
     (case update_subscription sid upd cu now1 now2 now3 d of
        Inl e \<Rightarrow> Inl e
      | Inr (s', d') \<Rightarrow> Inr (s', reprice g d'))"
proof -
  have subs: "subscriptions (reprice g d) = subscriptions d" by (simp add: reprice_def)
  have comm: "(reprice g d)\<lparr>subscriptions := rows\<rparr> = reprice g (d\<lparr>subscriptions := rows\<rparr>)"
    for rows by (simp add: reprice_def)
  show ?thesis
    unfolding update_subscription_def subs plan_entries_reprice
    by (simp add: comm Let_def split: option.splits sum.splits)
qed

text \<open>
  C2 (amended). ChangePlan carry-forward: for an existing subscription, an authorised
  requester and an existing active new plan of duration \<open>p\<close>, let
  \<open>d = max(0, floor(end_date_old - now))\<close> be the remaining whole days, clamped to zero.
  If \<open>now + (p + d)\<close> days is a representable datetime, the update succeeds and sets
  \<open>end_date\<close> to \<open>now + (p + d)\<close> days; otherwise it raises \<open>OverflowError\<close> and changes
  nothing. Whole days are carried forward and the rest is dropped: \<open>d\<close> days are at most
  the remaining time, which is less than \<open>d + 1\<close> days. No price enters the computation:
  with other prices on the plans the outcome is the same. The route reads the clock once
  for \<open>d\<close> (\<open>now1\<close>) and once for the new end date (\<open>now2\<close>); the statement holds for any
  two readings, in particular for equal ones.
\<close>

theorem change_plan_carry_forward:
  assumes "find (\<lambda>r. s_id r = sid) (subscriptions d) = Some s"
    and "u_id cu = user_id s \<or> truthy (u_is_admin cu)"
    and "upd_plan_id upd = Some (Some pid)"
    and "find (\<lambda>p. p_id p = pid) (plans d) = Some plan"
    and "truthy (p_is_active plan)"
  shows "(representable now2 (p_duration_days plan + max 0 (days_of (end_date s - now1))) \<longrightarrow>
           (\<exists>s' d'. update_subscription sid upd cu now1 now2 now3 d = Inr (s', d') \<and>
              plan_id s' = pid \<and>
              end_date s' = now2 + timedelta_of_days
                (p_duration_days plan + max 0 (days_of (end_date s - now1))) \<and>
              find (\<lambda>r. s_id r = sid) (subscriptions d') = Some s')) \<and>
         (\<not> representable now2 (p_duration_days plan + max 0 (days_of (end_date s - now1))) \<longrightarrow>
            update_subscription sid upd cu now1 now2 now3 d = Inl OverflowError \<and>
            state_after d (update_subscription sid upd cu now1 now2 now3 d) = d) \<and>
         timedelta_of_days (max 0 (days_of (end_date s - now1))) \<le> max 0 (end_date s - now1) \<and>
         max 0 (end_date s - now1) < timedelta_of_days (max 0 (days_of (end_date s - now1)) + 1) \<and>
         update_subscription sid upd cu now1 now2 now3 (reprice g d) =
           (case update_subscription sid upd cu now1 now2 now3 d of
              Inl e \<Rightarrow> Inl e
            | Inr (s', d') \<Rightarrow> Inr (s', reprice g d'))"
proof -
  let ?dl = "max 0 (days_of (end_date s - now1))"
  let ?e = "now2 + timedelta_of_days (p_duration_days plan + ?dl)"
  note pe = plan_entries_found [OF assms(3-5), of s now1 now2]
  have good: "\<exists>s' d'. update_subscription sid upd cu now1 now2 now3 d = Inr (s', d') \<and>
              plan_id s' = pid \<and> end_date s' = ?e \<and>
              find (\<lambda>r. s_id r = sid) (subscriptions d') = Some s'"
    if r: "representable now2 (p_duration_days plan + ?dl)"
  proof -
    let ?base = "\<lparr>ud_plan_id = Some pid, ud_status = upd_status upd, ud_end_date = Some ?e,
           ud_cancelled_at = None\<rparr>"
    let ?full = "if ud_status ?base = Some (Some CANCELLED)
             then ?base\<lparr>ud_cancelled_at := Some now3\<rparr> else ?base"
    define s' where "s' = setattr_all ?full s"
    define d' where "d' = d\<lparr>subscriptions :=
      update_first (\<lambda>r. s_id r = sid) (\<lambda>r. s') (subscriptions d)\<rparr>"
    have pe': "plan_entries upd s now1 now2 d = Inr ?base"
      unfolding pe using r by simp
    have ok: "update_subscription sid upd cu now1 now2 now3 d = Inr (s', d')"
      unfolding s'_def d'_def
      using update_subscription_authorised [OF assms(1,2) pe', of now3] by simp
    have "ud_plan_id ?full = Some pid" and "ud_end_date ?full = Some ?e" by simp_all
    then have p: "plan_id s' = pid" and e: "end_date s' = ?e"
      unfolding s'_def by (simp_all only: setattr_all_plan_id setattr_all_end_date)
    have found: "find (\<lambda>r. s_id r = sid) (subscriptions d') = Some s'"
      using update_success_found [OF assms(1) ok] .
    from ok p e found show ?thesis by blast
  qed
  have bad: "update_subscription sid upd cu now1 now2 now3 d = Inl OverflowError \<and>
            state_after d (update_subscription sid upd cu now1 now2 now3 d) = d"
    if r: "\<not> representable now2 (p_duration_days plan + ?dl)"
  proof -
    have "plan_entries upd s now1 now2 d = Inl OverflowError"
      unfolding pe using r by simp
    from update_subscription_raises [OF assms(1,2) this, of now3]
    show ?thesis by (simp add: state_after_def)
  qed
  have fl: "timedelta_of_days ?dl \<le> max 0 (end_date s - now1) \<and>
            max 0 (end_date s - now1) < timedelta_of_days (?dl + 1)"
  proof (cases "end_date s - now1 < 0")
    case True
    then have "days_of (end_date s - now1) < 0"
      by (simp add: days_of_def microseconds_per_day_def div_neg_pos_less0)
    with True show ?thesis
      by (simp add: max_def timedelta_of_days_def microseconds_per_day_def)
  next
    case False
    then have "0 \<le> days_of (end_date s - now1)"
      by (simp add: days_of_def microseconds_per_day_def pos_imp_zdiv_nonneg_iff)
    with False days_of_floor [of "end_date s - now1"] show ?thesis
      by (simp add: max_def)
  qed
  from good bad fl update_subscription_reprice [of sid upd cu now1 now2 now3 g d]
  show ?thesis by blast
qed

theorem change_plan_carry_forward_witness:
  "find (\<lambda>r. s_id r = 1) (subscriptions db2) = Some sub1 \<and> u_id alice = user_id sub1 \<and>
   find (\<lambda>p. p_id p = 2) (plans db2) = Some plan_b \<and> truthy (p_is_active plan_b) \<and>
   p_duration_days plan_b = 20 \<and> days_of (end_date sub1 - 1728000000000) = 10 \<and>
   representable 1728000000000 30 \<and>
   update_subscription 1 \<lparr>upd_plan_id = Some (Some 2), upd_status = None\<rparr>
     alice 1728000000000 1728000000000 1728000000000 db2
     = Inr (sub1_changed, db2\<lparr>subscriptions := [sub1_changed]\<rparr>) \<and>
   end_date sub1_changed = 1728000000000 + timedelta_of_days 30 \<and>
   status sub1_changed = Some ACTIVE \<and>
   update_subscription 1 \<lparr>upd_plan_id = Some (Some 2), upd_status = None\<rparr>
     alice 1728000000000 1728000000000 1728000000000 (reprice (\<lambda>p. (0, 0)) db2)
     = Inr (sub1_changed, reprice (\<lambda>p. (0, 0)) (db2\<lparr>subscriptions := [sub1_changed]\<rparr>)) \<and>
   find (\<lambda>r. s_id r = 1) (subscriptions db6) = Some sub1 \<and>
   find (\<lambda>p. p_id p = 3) (plans db6) = Some plan_long \<and> truthy (p_is_active plan_long) \<and>
   \<not> representable new_year_2026
       (p_duration_days plan_long + max 0 (days_of (end_date sub1 - new_year_2026))) \<and>
   update_subscription 1 \<lparr>upd_plan_id = Some (Some 3), upd_status = None\<rparr>
     alice new_year_2026 new_year_2026 new_year_2026 db6 = Inl OverflowError"
proof -
  let ?U = "\<lparr>upd_plan_id = Some (Some 2), upd_status = None\<rparr>"
  let ?L = "\<lparr>upd_plan_id = Some (Some 3), upd_status = None\<rparr>"
  let ?n = "1728000000000 :: int"
  have f: "find (\<lambda>r. s_id r = 1) (subscriptions db2) = Some sub1"
    and f6: "find (\<lambda>r. s_id r = 1) (subscriptions db6) = Some sub1"
    by (simp_all add: db2_def db6_def db1_def sub1_def)
  have o: "u_id alice = user_id sub1" by (simp add: alice_def sub1_def)
  have i: "upd_plan_id ?U = Some (Some 2)" and i6: "upd_plan_id ?L = Some (Some 3)"
    by simp_all
  have p: "find (\<lambda>p. p_id p = 2) (plans db2) = Some plan_b"
    and p6: "find (\<lambda>p. p_id p = 3) (plans db6) = Some plan_long"
    by (simp_all add: db2_def db6_def monthly_def plan_b_def plan_long_def)
  have a: "truthy (p_is_active plan_b)" and a6: "truthy (p_is_active plan_long)"
    by (simp_all add: plan_b_def plan_long_def truthy_def)
  have dur: "p_duration_days plan_b = 20" by (simp add: plan_b_def)
  have dl: "days_of (end_date sub1 - ?n) = 10"
    by (simp add: days_of_def sub1_def microseconds_per_day_def)
  have r: "representable ?n 30"
    by (simp add: representable_def is_datetime_def datetime_max_def timedelta_of_days_def
        microseconds_per_day_def)
  have nr: "\<not> representable new_year_2026
       (p_duration_days plan_long + max 0 (days_of (end_date sub1 - new_year_2026)))"
    by (simp add: representable_def is_datetime_def datetime_max_def timedelta_of_days_def
        microseconds_per_day_def plan_long_def sub1_def days_of_def new_year_2026_def)
  have u: "update_subscription 1 ?U alice ?n ?n ?n db2
     = Inr (sub1_changed, db2\<lparr>subscriptions := [sub1_changed]\<rparr>)"
    by (simp add: update_subscription_def plan_entries_def setattr_all_def db2_def db1_def
        sub1_def sub1_changed_def alice_def monthly_def plan_b_def truthy_def
        timedelta_of_days_def days_of_def microseconds_per_day_def Let_def add_days_eq
        representable_def is_datetime_def datetime_max_def)
  note t = change_plan_carry_forward [OF f disjI1 [OF o] i p a, of ?n ?n ?n "\<lambda>p. (0, 0)"]
  from t r dur dl u
  have "end_date sub1_changed = ?n + timedelta_of_days
             (p_duration_days plan_b + max 0 (days_of (end_date sub1 - ?n)))"
    by auto
  then have e: "end_date sub1_changed = ?n + timedelta_of_days 30"
    by (simp add: dur dl)
  from t u have rp: "update_subscription 1 ?U alice ?n ?n ?n (reprice (\<lambda>p. (0, 0)) db2)
     = Inr (sub1_changed, reprice (\<lambda>p. (0, 0)) (db2\<lparr>subscriptions := [sub1_changed]\<rparr>))"
    by simp
  from change_plan_carry_forward [OF f6 disjI1 [OF o] i6 p6 a6,
      of new_year_2026 new_year_2026 new_year_2026 "\<lambda>p. (0, 0)"] nr
  have ov: "update_subscription 1 ?L alice new_year_2026 new_year_2026 new_year_2026 db6
      = Inl OverflowError"
    by blast
  have st: "status sub1_changed = Some ACTIVE" by (simp add: sub1_changed_def sub1_def)
  from f o p a dur dl r u e st rp f6 p6 a6 nr ov show ?thesis by simp
qed

theorem change_plan_counterexample:
  "find (\<lambda>r. s_id r = 1) (subscriptions db6) = Some sub1 \<and> u_id alice = user_id sub1 \<and>
   find (\<lambda>p. p_id p = 3) (plans db6) = Some plan_long \<and> truthy (p_is_active plan_long) \<and>
   is_datetime new_year_2026 \<and>
   update_subscription 1 \<lparr>upd_plan_id = Some (Some 3), upd_status = None\<rparr>
     alice new_year_2026 new_year_2026 new_year_2026 db6 = Inl OverflowError \<and>
   find (\<lambda>p. p_id p = 2) (plans db6) = Some plan_b \<and> truthy (p_is_active plan_b) \<and>
   p_duration_days plan_b = 20 \<and>
   end_date sub1 - 2505600000001 = 86399999999 \<and>
   update_subscription 1 \<lparr>upd_plan_id = Some (Some 2), upd_status = None\<rparr>
     alice 2505600000001 2505600000001 2505600000001 db6
     = Inr (sub1\<lparr>plan_id := 2, end_date := 2505600000001 + timedelta_of_days 20\<rparr>,
            db6\<lparr>subscriptions :=
                  [sub1\<lparr>plan_id := 2, end_date := 2505600000001 + timedelta_of_days 20\<rparr>]\<rparr>)"
  by (simp add: update_subscription_def plan_entries_def setattr_all_def db6_def db1_def
      sub1_def alice_def monthly_def plan_b_def plan_long_def truthy_def
      timedelta_of_days_def days_of_def microseconds_per_day_def Let_def add_days_eq
      representable_def is_datetime_def datetime_max_def new_year_2026_def)

subsection \<open>What the sweep changes\<close>

lemma sweep_database:
  "database (check_expired_subscriptions fault utcnow d) =
     (if fault = NoFault then d\<lparr>subscriptions := mark_expired utcnow (subscriptions d)\<rparr> else d)"
  by (cases fault) (simp_all add: check_expired_subscriptions_def Let_def)

lemma mark_expired_nth:
  "i < length rows \<Longrightarrow>
     mark_expired utcnow rows ! i =
       (if is_overdue utcnow (rows ! i) then (rows ! i)\<lparr>status := Some EXPIRED\<rparr> else rows ! i)"
  by (simp add: mark_expired_def)

text \<open>
  C7. SweepExpired never transitions a subscription whose \<open>end_date >= now\<close>, nor one
  whose status is not Active: the table keeps its length and order, every row is either
  unchanged or was Active with \<open>end_date < now\<close> and differs from the old row in its
  status alone, which is Expired; users, plans and the id sequence are untouched.
\<close>

theorem sweep_only_expires_overdue:
  assumes "d' = database (check_expired_subscriptions fault utcnow d)"
  shows "length (subscriptions d') = length (subscriptions d) \<and>
         users d' = users d \<and> plans d' = plans d \<and>
         subscriptions_id_seq d' = subscriptions_id_seq d \<and>
         (\<forall>i < length (subscriptions d).
            (utcnow \<le> end_date (subscriptions d ! i) \<or> status (subscriptions d ! i) \<noteq> Some ACTIVE
               \<longrightarrow> subscriptions d' ! i = subscriptions d ! i) \<and>
            (subscriptions d' ! i \<noteq> subscriptions d ! i \<longrightarrow>
               status (subscriptions d ! i) = Some ACTIVE \<and>
               end_date (subscriptions d ! i) < utcnow \<and>
               subscriptions d' ! i = (subscriptions d ! i)\<lparr>status := Some EXPIRED\<rparr>))"
proof (cases "fault = NoFault")
  case True
  with assms have d': "d' = d\<lparr>subscriptions := mark_expired utcnow (subscriptions d)\<rparr>"
    by (simp add: sweep_database)
  have "length (mark_expired utcnow (subscriptions d)) = length (subscriptions d)"
    by (simp add: mark_expired_def)
  with d' show ?thesis
    by (auto simp: mark_expired_nth is_overdue_def)
next
  case False
  with assms have "d' = d" by (simp add: sweep_database)
  then show ?thesis by simp
qed

theorem sweep_only_expires_overdue_witness:
  "db3_swept = database (check_expired_subscriptions NoFault 10 db3) \<and>
   subscriptions db3 ! 0 = sub1 \<and> 10 \<le> end_date sub1 \<and> subscriptions db3_swept ! 0 = sub1 \<and>
   subscriptions db3 ! 2 = sub3 \<and> status sub3 \<noteq> Some ACTIVE \<and> end_date sub3 < 10 \<and>
   subscriptions db3_swept ! 2 = sub3 \<and>
   subscriptions db3 ! 1 = sub2 \<and> subscriptions db3_swept ! 1 \<noteq> sub2 \<and>
   status sub2 = Some ACTIVE \<and> end_date sub2 < 10 \<and>
   subscriptions db3_swept ! 1 = sub2\<lparr>status := Some EXPIRED\<rparr>"
proof -
  have sw: "db3_swept = database (check_expired_subscriptions NoFault 10 db3)"
    by (simp add: sweep_database db3_swept_def db3_def mark_expired_def is_overdue_def
        sub1_def sub2_def sub3_def)
  have r0: "subscriptions db3 ! 0 = sub1" and r1: "subscriptions db3 ! 1 = sub2"
    and r2: "subscriptions db3 ! 2 = sub3" and len: "length (subscriptions db3) = 3"
    by (simp_all add: db3_def)
  have e0: "10 \<le> end_date sub1" by (simp add: sub1_def)
  have e2: "status sub3 \<noteq> Some ACTIVE" "end_date sub3 < 10" by (simp_all add: sub3_def)
  have ne: "subscriptions db3_swept ! 1 \<noteq> sub2" by (simp add: db3_swept_def sub2_def)
  note t = sweep_only_expires_overdue [OF sw]
  from t r0 e0 len have k0: "subscriptions db3_swept ! 0 = sub1" by simp
  from t r2 e2 len have k2: "subscriptions db3_swept ! 2 = sub3" by simp
  have "(1::nat) < length (subscriptions db3)" using len by simp
  with t have "subscriptions db3_swept ! 1 \<noteq> subscriptions db3 ! 1 \<longrightarrow>
               status (subscriptions db3 ! 1) = Some ACTIVE \<and>
               end_date (subscriptions db3 ! 1) < 10 \<and>
               subscriptions db3_swept ! 1 = (subscriptions db3 ! 1)\<lparr>status := Some EXPIRED\<rparr>"
    by blast
  with r1 ne have k1: "status sub2 = Some ACTIVE \<and> end_date sub2 < 10 \<and>
      subscriptions db3_swept ! 1 = sub2\<lparr>status := Some EXPIRED\<rparr>" by simp
  from sw r0 r1 r2 e0 e2 ne k0 k1 k2 show ?thesis by simp
qed

subsection \<open>Sweeping twice\<close>

lemma expired_after_sweep:
  "filter (is_overdue now2) (mark_expired now1 rows) =
     filter (\<lambda>s. status s = Some ACTIVE \<and> now1 \<le> end_date s \<and> end_date s < now2) rows"
  by (induction rows) (auto simp: mark_expired_def is_overdue_def)

lemma mark_expired_id:
  "filter (is_overdue utcnow) rows = [] \<Longrightarrow> mark_expired utcnow rows = rows"
  by (induction rows) (auto simp: mark_expired_def split: if_splits)

lemma mark_expired_settled:
  assumes "i < length rows" and "mark_expired now1 rows ! i \<noteq> rows ! i"
  shows "mark_expired now2 (mark_expired now1 rows) ! i = mark_expired now1 rows ! i"
proof -
  from assms have "mark_expired now1 rows ! i = (rows ! i)\<lparr>status := Some EXPIRED\<rparr>"
    by (simp add: mark_expired_nth split: if_splits)
  moreover have "i < length (mark_expired now1 rows)" using assms(1)
    by (simp add: mark_expired_def)
  ultimately show ?thesis
    by (simp add: mark_expired_nth is_overdue_def)
qed

text \<open>
  C5 (amended). Two sweeps in succession never transition a row twice, whatever the two
  clock readings and whether or not a run hits a persistence failure: a row the first
  run has changed is left alone by the second. When the first run commits, the second
  run selects exactly the Active rows whose \<open>end_date\<close> lies between the two clock
  readings (\<open>now1 \<le> end_date < now2\<close>); if moreover the second reading is not later than
  the first, or no Active row ends between the two readings, the second run selects and
  transitions zero rows and the state after two runs equals the state after one. When
  the first run fails and rolls back, it leaves the state as it was, and the second run
  selects the rows that are overdue at its own reading.
\<close>

theorem sweep_twice:
  "(\<forall>i < length (subscriptions d).
      subscriptions (database (check_expired_subscriptions fault1 now1 d)) ! i
        \<noteq> subscriptions d ! i \<longrightarrow>
      subscriptions (database (check_expired_subscriptions fault2 now2
          (database (check_expired_subscriptions fault1 now1 d)))) ! i
        = subscriptions (database (check_expired_subscriptions fault1 now1 d)) ! i) \<and>
   (fault1 = NoFault \<longrightarrow>
      expired_subscriptions now2 (database (check_expired_subscriptions fault1 now1 d)) =
        filter (\<lambda>s. status s = Some ACTIVE \<and> now1 \<le> end_date s \<and> end_date s < now2)
          (subscriptions d)) \<and>
   (fault1 = NoFault \<and>
    (now2 \<le> now1 \<or>
     filter (\<lambda>s. status s = Some ACTIVE \<and> now1 \<le> end_date s \<and> end_date s < now2)
       (subscriptions d) = []) \<longrightarrow>
    expired_subscriptions now2 (database (check_expired_subscriptions fault1 now1 d)) = [] \<and>
    database (check_expired_subscriptions fault2 now2
                (database (check_expired_subscriptions fault1 now1 d)))
      = database (check_expired_subscriptions fault1 now1 d)) \<and>
   (fault1 \<noteq> NoFault \<longrightarrow>
      database (check_expired_subscriptions fault1 now1 d) = d \<and>
      expired_subscriptions now2 (database (check_expired_subscriptions fault1 now1 d)) =
        expired_subscriptions now2 d)"
proof -
  let ?d1 = "database (check_expired_subscriptions NoFault now1 d)"
  let ?w = "filter (\<lambda>s. status s = Some ACTIVE \<and> now1 \<le> end_date s \<and> end_date s < now2)
       (subscriptions d)"
  have once: "\<forall>i < length (subscriptions d).
      subscriptions (database (check_expired_subscriptions fault1 now1 d)) ! i
        \<noteq> subscriptions d ! i \<longrightarrow>
      subscriptions (database (check_expired_subscriptions fault2 now2
          (database (check_expired_subscriptions fault1 now1 d)))) ! i
        = subscriptions (database (check_expired_subscriptions fault1 now1 d)) ! i"
    by (simp add: sweep_database mark_expired_settled)
  have sel: "expired_subscriptions now2 ?d1 = ?w"
    by (simp add: sweep_database expired_subscriptions_def expired_after_sweep)
  have none: "expired_subscriptions now2 ?d1 = [] \<and>
      database (check_expired_subscriptions fault2 now2 ?d1) = ?d1" if w: "?w = []"
  proof -
    from sel w have e: "expired_subscriptions now2 ?d1 = []" by simp
    then have "mark_expired now2 (subscriptions ?d1) = subscriptions ?d1"
      by (simp add: expired_subscriptions_def mark_expired_id)
    then have "database (check_expired_subscriptions fault2 now2 ?d1) = ?d1"
      by (simp add: sweep_database [of fault2])
    with e show ?thesis by simp
  qed
  have empty: "?w = []" if "now2 \<le> now1"
    using that by (auto simp: filter_empty_conv)
  have failed: "fault1 \<noteq> NoFault \<longrightarrow>
      database (check_expired_subscriptions fault1 now1 d) = d \<and>
      expired_subscriptions now2 (database (check_expired_subscriptions fault1 now1 d)) =
        expired_subscriptions now2 d"
    by (simp add: sweep_database)
  from once sel none empty failed show ?thesis by blast
qed

theorem sweep_twice_witness:
  "(10::int) \<le> 10 \<and>
   expired_subscriptions 10 (database (check_expired_subscriptions NoFault 10 db3)) = [] \<and>
   database (check_expired_subscriptions NoFault 10
               (database (check_expired_subscriptions NoFault 10 db3))) = db3_swept \<and>
   database (check_expired_subscriptions NoFault 10 db3) = db3_swept \<and>
   length (expired_subscriptions 10 db3) = 1 \<and>
   subscriptions db3_swept ! 1 \<noteq> subscriptions db3 ! 1 \<and>
   subscriptions (database (check_expired_subscriptions NoFault 20 db3_swept)) ! 1
     = subscriptions db3_swept ! 1 \<and>
   CommitRaises ''connection lost'' \<noteq> NoFault \<and>
   database (check_expired_subscriptions (CommitRaises ''connection lost'') 10 db3) = db3 \<and>
   expired_subscriptions 10
     (database (check_expired_subscriptions (CommitRaises ''connection lost'') 10 db3)) = [sub2]"
proof -
  let ?f = "CommitRaises ''connection lost''"
  have sw: "database (check_expired_subscriptions NoFault 10 db3) = db3_swept"
    by (simp add: sweep_database db3_swept_def db3_def mark_expired_def is_overdue_def
        sub1_def sub2_def sub3_def)
  have one: "length (expired_subscriptions 10 db3) = 1"
    and sel: "expired_subscriptions 10 db3 = [sub2]"
    by (simp_all add: expired_subscriptions_def db3_def is_overdue_def sub1_def sub2_def
        sub3_def)
  have le: "(10::int) \<le> 10" by simp
  have nf: "?f \<noteq> NoFault" by simp
  have len: "(1::nat) < length (subscriptions db3)" by (simp add: db3_def)
  have ne: "subscriptions db3_swept ! 1 \<noteq> subscriptions db3 ! 1"
    by (simp add: db3_swept_def db3_def sub2_def)
  from sweep_twice [of db3 NoFault 10 NoFault 10] le
  have "expired_subscriptions 10 (database (check_expired_subscriptions NoFault 10 db3)) = [] \<and>
    database (check_expired_subscriptions NoFault 10
                (database (check_expired_subscriptions NoFault 10 db3)))
      = database (check_expired_subscriptions NoFault 10 db3)"
    by blast
  then have a: "expired_subscriptions 10 (database (check_expired_subscriptions NoFault 10 db3)) = []"
    and b: "database (check_expired_subscriptions NoFault 10
               (database (check_expired_subscriptions NoFault 10 db3))) = db3_swept"
    by (simp_all add: sw)
  from sweep_twice [of db3 NoFault 10 NoFault 20] len
  have "subscriptions (database (check_expired_subscriptions NoFault 10 db3)) ! 1
        \<noteq> subscriptions db3 ! 1 \<longrightarrow>
      subscriptions (database (check_expired_subscriptions NoFault 20
          (database (check_expired_subscriptions NoFault 10 db3)))) ! 1
        = subscriptions (database (check_expired_subscriptions NoFault 10 db3)) ! 1"
    by blast
  with ne have c: "subscriptions (database (check_expired_subscriptions NoFault 20 db3_swept)) ! 1
     = subscriptions db3_swept ! 1"
    by (simp add: sw)
  from sweep_twice [of db3 ?f 10 NoFault 10] nf
  have "database (check_expired_subscriptions ?f 10 db3) = db3 \<and>
      expired_subscriptions 10 (database (check_expired_subscriptions ?f 10 db3)) =
        expired_subscriptions 10 db3"
    by blast
  with sel have e: "database (check_expired_subscriptions ?f 10 db3) = db3"
    "expired_subscriptions 10 (database (check_expired_subscriptions ?f 10 db3)) = [sub2]"
    by simp_all
  from le a b sw one ne c nf e show ?thesis by simp
qed

theorem sweep_twice_later_clock_counterexample:
  "(3::int) \<le> 10 \<and>
   expired_subscriptions 3 db4 = [] \<and>
   database (check_expired_subscriptions NoFault 3 db4) = db4 \<and>
   expired_subscriptions 10 (database (check_expired_subscriptions NoFault 3 db4)) = [sub2] \<and>
   database (check_expired_subscriptions NoFault 10
               (database (check_expired_subscriptions NoFault 3 db4)))
     = db4\<lparr>subscriptions := [sub2\<lparr>status := Some EXPIRED\<rparr>]\<rparr> \<and>
   database (check_expired_subscriptions NoFault 10
               (database (check_expired_subscriptions NoFault 3 db4)))
     \<noteq> database (check_expired_subscriptions NoFault 3 db4)"
  by (simp add: sweep_database expired_subscriptions_def db4_def mark_expired_def
      is_overdue_def sub2_def)

subsection \<open>What the sweep returns\<close>

lemma changed_rows_mark_expired:
  "length (filter (\<lambda>(a, b). a \<noteq> b) (zip rows (mark_expired utcnow rows)))
     = length (filter (is_overdue utcnow) rows)"
proof (induction rows)
  case Nil
  then show ?case by (simp add: mark_expired_def)
next
  case (Cons r rows)
  have "is_overdue utcnow r \<Longrightarrow> r\<lparr>status := Some EXPIRED\<rparr> \<noteq> r"
    by (auto simp: is_overdue_def dest: arg_cong [where f = status])
  with Cons show ?case by (auto simp: mark_expired_def)
qed

lemma sweep_returned: "returned (check_expired_subscriptions fault utcnow d) = PyNone"
  by (cases fault) (simp_all add: check_expired_subscriptions_def Let_def)

lemma sweep_logged_ok:
  "last (logged (check_expired_subscriptions NoFault utcnow d)) =
     (INFO, ''Updated '' @ str_int (int (length (expired_subscriptions utcnow d)))
              @ '' expired subscriptions'')"
  by (simp add: check_expired_subscriptions_def Let_def)

lemma sweep_logged_fault:
  "fault \<noteq> NoFault \<Longrightarrow>
     \<exists>e. last (logged (check_expired_subscriptions fault utcnow d)) =
           (ERROR, ''Error checking expired subscriptions: '' @ e)"
  by (cases fault) (simp_all add: check_expired_subscriptions_def Let_def)

text \<open>
  C8 (amended). SweepExpired returns nothing to its caller (\<open>None\<close>), whether or not the
  persistence layer fails, and the manual trigger answers with a fixed message and queues
  the sweep as a background task. The count of transitioned records is only written to
  the log: without a failure the last log record is ``Updated n expired subscriptions'',
  \<open>n\<close> being the number of rows the sweep changed. On a persistence failure during the
  batch no transition is committed (the database is as before) and the failure is logged
  as an error.
\<close>

theorem sweep_returns_nothing:
  "returned (check_expired_subscriptions fault utcnow d) = PyNone \<and>
   check_expired background_tasks current_user =
     (PyDict [(''message'', ''Expired subscription check triggered'')],
      background_tasks @ [Task_check_expired_subscriptions]) \<and>
   (fault = NoFault \<longrightarrow>
      last (logged (check_expired_subscriptions fault utcnow d)) =
        (INFO, ''Updated '' @ str_int (int (length (expired_subscriptions utcnow d)))
                 @ '' expired subscriptions'') \<and>
      changed_rows d (database (check_expired_subscriptions fault utcnow d))
        = length (expired_subscriptions utcnow d)) \<and>
   (fault \<noteq> NoFault \<longrightarrow>
      database (check_expired_subscriptions fault utcnow d) = d \<and>
      (\<exists>e. last (logged (check_expired_subscriptions fault utcnow d)) =
             (ERROR, ''Error checking expired subscriptions: '' @ e)))"
proof -
  have "changed_rows d (database (check_expired_subscriptions NoFault utcnow d))
        = length (expired_subscriptions utcnow d)"
    by (simp add: changed_rows_def sweep_database expired_subscriptions_def
        changed_rows_mark_expired)
  moreover have "fault \<noteq> NoFault \<Longrightarrow> database (check_expired_subscriptions fault utcnow d) = d"
    by (simp add: sweep_database)
  ultimately show ?thesis
    using sweep_returned [of fault utcnow d] sweep_logged_ok [of utcnow d]
      sweep_logged_fault [of fault utcnow d]
    by (auto simp: check_expired_def)
qed

theorem sweep_returns_nothing_witness:
  "returned (check_expired_subscriptions NoFault 10 db3) = PyNone \<and>
   length (expired_subscriptions 10 db3) = 1 \<and>
   changed_rows db3 (database (check_expired_subscriptions NoFault 10 db3)) = 1 \<and>
   last (logged (check_expired_subscriptions NoFault 10 db3)) =
     (INFO, ''Updated 1 expired subscriptions'') \<and>
   CommitRaises ''connection lost'' \<noteq> NoFault \<and>
   returned (check_expired_subscriptions (CommitRaises ''connection lost'') 10 db3) = PyNone \<and>
   database (check_expired_subscriptions (CommitRaises ''connection lost'') 10 db3) = db3 \<and>
   last (logged (check_expired_subscriptions (CommitRaises ''connection lost'') 10 db3)) =
     (ERROR, ''Error checking expired subscriptions: connection lost'')"
proof -
  let ?f = "CommitRaises ''connection lost''"
  have one: "length (expired_subscriptions 10 db3) = 1"
    by (simp add: expired_subscriptions_def db3_def is_overdue_def sub1_def sub2_def sub3_def)
  have nf: "?f \<noteq> NoFault" by simp
  have lg: "last (logged (check_expired_subscriptions ?f 10 db3)) =
     (ERROR, ''Error checking expired subscriptions: connection lost'')"
    by (simp add: check_expired_subscriptions_def Let_def)
  note ok = sweep_returns_nothing [of NoFault 10 db3]
  note ko = sweep_returns_nothing [of ?f 10 db3]
  from ok have r1: "returned (check_expired_subscriptions NoFault 10 db3) = PyNone" by blast
  from ok one have c1: "changed_rows db3 (database (check_expired_subscriptions NoFault 10 db3)) = 1"
    by simp
  from ok one have l1: "last (logged (check_expired_subscriptions NoFault 10 db3)) =
     (INFO, ''Updated 1 expired subscriptions'')"
    by (simp add: str_int_1)
  from ko have r2: "returned (check_expired_subscriptions ?f 10 db3) = PyNone" by blast
  from ko nf have d2: "database (check_expired_subscriptions ?f 10 db3) = db3" by blast
  from r1 one c1 l1 nf r2 d2 lg show ?thesis by simp
qed

theorem sweep_returns_count_counterexample:
  "database (check_expired_subscriptions NoFault 10 db3) = db3_swept \<and>
   changed_rows db3 db3_swept = 1 \<and>
   returned (check_expired_subscriptions NoFault 10 db3) \<noteq> PyInt 1 \<and>
   returned (check_expired_subscriptions (CommitRaises ''connection lost'') 10 db3) \<noteq> PyInt 0 \<and>
   get_current_admin_user carol = Inr carol \<and>
   fst (check_expired [] carol) \<noteq> PyInt 1"
  by (simp add: sweep_database sweep_returned check_expired_def changed_rows_def db3_swept_def
      db3_def mark_expired_def is_overdue_def sub1_def sub2_def sub3_def
      get_current_admin_user_def carol_def truthy_def)

subsection \<open>cancelled_at and the status\<close>

lemma list_all_update_first:
  "list_all Q xs \<Longrightarrow> (\<And>x. find P xs = Some x \<Longrightarrow> Q (f x)) \<Longrightarrow>
     list_all Q (update_first P f xs)"
  by (induction xs) (auto split: if_splits)

lemma plan_entries_status:
  "plan_entries upd s now1 now2 d = Inr ud \<Longrightarrow>
     ud_status ud = upd_status upd \<and> ud_cancelled_at ud = None"
  by (auto simp: plan_entries_def Let_def split: option.splits if_splits sum.splits)

lemma setattr_all_status:
  "status (setattr_all ud s) = (case ud_status ud of None \<Rightarrow> status s | Some st \<Rightarrow> st)"
  by (simp add: setattr_all_def Let_def split: option.splits)

lemma setattr_all_cancelled_at:
  "cancelled_at (setattr_all ud s) =
     (case ud_cancelled_at ud of None \<Rightarrow> cancelled_at s | Some c \<Rightarrow> Some c)"
  by (simp add: setattr_all_def Let_def split: option.splits)

lemma update_success_status:
  assumes "find (\<lambda>r. s_id r = sid) (subscriptions d) = Some s"
    and "update_subscription sid upd cu now1 now2 now3 d = Inr (s', d')"
  shows "d' = d\<lparr>subscriptions := update_first (\<lambda>r. s_id r = sid) (\<lambda>r. s') (subscriptions d)\<rparr> \<and>
         status s' = (case upd_status upd of None \<Rightarrow> status s | Some st \<Rightarrow> st) \<and>
         cancelled_at s' = (if upd_status upd = Some (Some CANCELLED) then Some now3
                            else cancelled_at s)"
proof -
  from assms obtain ud where pe: "plan_entries upd s now1 now2 d = Inr ud"
    and auth: "u_id cu = user_id s \<or> truthy (u_is_admin cu)"
    by (auto simp: update_subscription_def split: if_splits sum.splits)
  let ?ud = "if ud_status ud = Some (Some CANCELLED)
             then ud\<lparr>ud_cancelled_at := Some now3\<rparr> else ud"
  from update_subscription_authorised [OF assms(1) auth pe, of now3] assms(2)
  have s': "s' = setattr_all ?ud s"
    and d': "d' = d\<lparr>subscriptions :=
        update_first (\<lambda>r. s_id r = sid) (\<lambda>r. s') (subscriptions d)\<rparr>"
    by simp_all
  from plan_entries_status [OF pe]
  have st: "ud_status ?ud = upd_status upd"
    and ca: "ud_cancelled_at ?ud =
      (if upd_status upd = Some (Some CANCELLED) then Some now3 else None)"
    by simp_all
  have "status s' = (case upd_status upd of None \<Rightarrow> status s | Some st \<Rightarrow> st)"
    unfolding s' setattr_all_status st ..
  moreover have "cancelled_at s' = (if upd_status upd = Some (Some CANCELLED) then Some now3
                            else cancelled_at s)"
    unfolding s' setattr_all_cancelled_at ca by simp
  ultimately show ?thesis using d' by simp
qed

lemma update_keeps:
  assumes "list_all Q (subscriptions d)"
    and "\<And>s s' d'. find (\<lambda>r. s_id r = sid) (subscriptions d) = Some s \<Longrightarrow>
           update_subscription sid upd cu now1 now2 now3 d = Inr (s', d') \<Longrightarrow> Q s'"
  shows "list_all Q (subscriptions (step (Update sid upd cu now1 now2 now3) d))"
proof (cases "update_subscription sid upd cu now1 now2 now3 d")
  case (Inl e)
  with assms(1) show ?thesis by (simp add: state_after_def)
next
  case (Inr r)
  obtain s' d' where r: "r = (s', d')" by (cases r)
  from Inr r obtain s where f: "find (\<lambda>r. s_id r = sid) (subscriptions d) = Some s"
    by (auto simp: update_subscription_def split: option.splits)
  from Inr r have ok: "update_subscription sid upd cu now1 now2 now3 d = Inr (s', d')" by simp
  from update_success_status [OF f ok]
  have d': "subscriptions d' = update_first (\<lambda>r. s_id r = sid) (\<lambda>r. s') (subscriptions d)"
    by simp
  have "Q s'" using assms(2) [OF f ok] .
  then have "list_all Q (subscriptions d')"
    unfolding d' using assms(1) by (simp add: list_all_update_first)
  with ok show ?thesis by (simp add: state_after_def)
qed

lemma create_keeps:
  assumes "list_all Q (subscriptions d)"
    and "\<And>s. status s = Some ACTIVE \<Longrightarrow> cancelled_at s = None \<Longrightarrow> Q s"
  shows "list_all Q (subscriptions (step (Create c cu now) d))"
  using assms
  by (auto simp: create_subscription_def state_after_def Let_def
      split: option.splits sum.splits)

lemma cancel_keeps:
  assumes "list_all Q (subscriptions d)"
    and "\<And>s. Q (s\<lparr>status := Some CANCELLED, cancelled_at := Some now\<rparr>)"
  shows "list_all Q (subscriptions (step (Cancel sid cu now) d))"
  using assms
  by (auto simp: cancel_subscription_def state_after_def list_all_update_first
      split: option.splits)

lemma sweep_keeps:
  assumes "list_all Q (subscriptions d)"
    and "\<And>s. Q s \<Longrightarrow> status s = Some ACTIVE \<Longrightarrow> Q (s\<lparr>status := Some EXPIRED\<rparr>)"
  shows "list_all Q (subscriptions (step (SweepExpired fault now) d))"
proof -
  have "list_all Q (mark_expired now (subscriptions d))"
    using assms by (auto simp: mark_expired_def list_all_iff is_overdue_def)
  with assms(1) show ?thesis by (simp add: sweep_database)
qed

lemma step_stamped: "all_stamped d \<Longrightarrow> all_stamped (step x d)"
proof (cases x)
  case (Create c cu now)
  assume "all_stamped d"
  then show ?thesis unfolding Create all_stamped_def
    by (rule create_keeps) (simp add: stamped_def)
next
  case (Update sid upd cu now1 now2 now3)
  assume a: "all_stamped d"
  show ?thesis unfolding Update all_stamped_def
  proof (rule update_keeps)
    show "list_all stamped (subscriptions d)" using a by (simp add: all_stamped_def)
  next
    fix s s' d'
    assume f: "find (\<lambda>r. s_id r = sid) (subscriptions d) = Some s"
      and ok: "update_subscription sid upd cu now1 now2 now3 d = Inr (s', d')"
    from f have "s \<in> set (subscriptions d)" by (auto simp: find_Some_iff)
    with a have "stamped s" by (simp add: all_stamped_def list_all_iff)
    with update_success_status [OF f ok] show "stamped s'"
      by (auto simp: stamped_def split: option.splits if_splits)
  qed
next
  case (Cancel sid cu now)
  assume "all_stamped d"
  then show ?thesis unfolding Cancel all_stamped_def
    by (rule cancel_keeps) (simp add: stamped_def)
next
  case (SweepExpired fault now)
  assume "all_stamped d"
  then show ?thesis unfolding SweepExpired all_stamped_def
    by (rule sweep_keeps) (simp add: stamped_def)
qed

lemma step_coupled:
  "all_coupled d \<Longrightarrow> \<not> leaves_cancelled x d \<Longrightarrow> all_coupled (step x d)"
proof (cases x)
  case (Create c cu now)
  assume "all_coupled d"
  then show ?thesis unfolding Create all_coupled_def
    by (rule create_keeps) (simp add: coupled_def)
next
  case (Update sid upd cu now1 now2 now3)
  assume a: "all_coupled d" and n: "\<not> leaves_cancelled x d"
  show ?thesis unfolding Update all_coupled_def
  proof (rule update_keeps)
    show "list_all coupled (subscriptions d)" using a by (simp add: all_coupled_def)
  next
    fix s s' d'
    assume f: "find (\<lambda>r. s_id r = sid) (subscriptions d) = Some s"
      and ok: "update_subscription sid upd cu now1 now2 now3 d = Inr (s', d')"
    from f have "s \<in> set (subscriptions d)" by (auto simp: find_Some_iff)
    with a have c: "coupled s" by (simp add: all_coupled_def list_all_iff)
    from n f have k: "upd_status upd = None \<or> upd_status upd = Some (Some CANCELLED) \<or>
        status s \<noteq> Some CANCELLED"
      unfolding Update by (auto split: option.splits)
    from update_success_status [OF f ok] c k show "coupled s'"
      by (auto simp: coupled_def split: option.splits if_splits)
  qed
next
  case (Cancel sid cu now)
  assume "all_coupled d"
  then show ?thesis unfolding Cancel all_coupled_def
    by (rule cancel_keeps) (simp add: coupled_def)
next
  case (SweepExpired fault now)
  assume "all_coupled d"
  then show ?thesis unfolding SweepExpired all_coupled_def
    by (rule sweep_keeps) (simp add: coupled_def)
qed

text \<open>
  C6 (amended). After every operation (Create, ChangePlan, SetStatus, Cancel,
  SweepExpired) every subscription whose status is Cancelled has a non-null
  \<open>cancelled_at\<close>, if that held before. The full coupling (\<open>cancelled_at\<close> is non-null
  iff the status is Cancelled) is kept by every operation except an update that sets the
  status of a Cancelled subscription to something other than Cancelled.
\<close>

theorem cancelled_at_coupling:
  "(all_stamped d \<longrightarrow> all_stamped (step x d)) \<and>
   (all_coupled d \<and> \<not> leaves_cancelled x d \<longrightarrow> all_coupled (step x d))"
  using step_stamped step_coupled by blast

theorem cancelled_at_coupling_witness:
  "all_stamped db1_cancelled \<and> all_stamped (step (Update 1 reopen alice 9 9 9) db1_cancelled) \<and>
   all_coupled db1 \<and> \<not> leaves_cancelled (Cancel 1 alice 4) db1 \<and>
   step (Cancel 1 alice 4) db1 = db1_cancelled \<and> all_coupled db1_cancelled \<and>
   \<not> leaves_cancelled (Update 1 \<lparr>upd_plan_id = None, upd_status = Some (Some CANCELLED)\<rparr>
        alice 9 9 9) db1 \<and>
   all_coupled (step (Update 1 \<lparr>upd_plan_id = None, upd_status = Some (Some CANCELLED)\<rparr>
        alice 9 9 9) db1)"
proof -
  let ?U = "\<lparr>upd_plan_id = None, upd_status = Some (Some CANCELLED)\<rparr>"
  have s: "all_stamped db1_cancelled"
    by (simp add: all_stamped_def stamped_def db1_cancelled_def sub1_cancelled_def)
  have c: "all_coupled db1"
    by (simp add: all_coupled_def coupled_def db1_def sub1_def)
  have n1: "\<not> leaves_cancelled (Cancel 1 alice 4) db1" by simp
  have n2: "\<not> leaves_cancelled (Update 1 ?U alice 9 9 9) db1" by simp
  have st: "step (Cancel 1 alice 4) db1 = db1_cancelled"
    by (simp add: state_after_def cancel_subscription_def db1_def db1_cancelled_def
        sub1_cancelled_def sub1_def alice_def)
  from cancelled_at_coupling [of db1_cancelled "Update 1 reopen alice 9 9 9"] s
  have a: "all_stamped (step (Update 1 reopen alice 9 9 9) db1_cancelled)" by blast
  from cancelled_at_coupling [of db1 "Cancel 1 alice 4"] c n1
  have "all_coupled (step (Cancel 1 alice 4) db1)" by blast
  with st have b: "all_coupled db1_cancelled" by simp
  from cancelled_at_coupling [of db1 "Update 1 ?U alice 9 9 9"] c n2
  have e: "all_coupled (step (Update 1 ?U alice 9 9 9) db1)" by blast
  from s a c n1 st b n2 e show ?thesis by blast
qed

theorem cancelled_at_coupling_counterexample:
  "all_coupled db1_cancelled \<and>
   find (\<lambda>s. s_id s = 1) (subscriptions db1_cancelled) = Some sub1_cancelled \<and>
   status sub1_cancelled = Some CANCELLED \<and> cancelled_at sub1_cancelled = Some 4 \<and>
   update_subscription 1 reopen alice 9 9 9 db1_cancelled =
     Inr (sub1_cancelled\<lparr>status := Some ACTIVE\<rparr>,
          db1_cancelled\<lparr>subscriptions := [sub1_cancelled\<lparr>status := Some ACTIVE\<rparr>]\<rparr>) \<and>
   status (sub1_cancelled\<lparr>status := Some ACTIVE\<rparr>) = Some ACTIVE \<and>
   cancelled_at (sub1_cancelled\<lparr>status := Some ACTIVE\<rparr>) = Some 4 \<and>
   \<not> all_coupled (step (Update 1 reopen alice 9 9 9) db1_cancelled)"
  by (simp add: all_coupled_def coupled_def state_after_def update_subscription_def
      plan_entries_def setattr_all_def reopen_def db1_cancelled_def db1_def sub1_cancelled_def
      sub1_def alice_def Let_def)

end
